theory Spec2Isabelle
  imports Complex_Main "HOL-Library.Word"
begin

section \<open>JavaScript values used by the Valetudo platform\<close>

text \<open>
  The adapter is the class \<open>ValetudoPlatform\<close> of \<open>dist/platforms/valetudo/platform.js\<close>.
  Its handlers receive JavaScript strings, so a string is a list of UTF-16 code units.
  \<open>str\<close> writes a literal of the source as such a list.
\<close>

type_synonym jschar = "16 word"
type_synonym jsstring = "jschar list"

definition str :: "string \<Rightarrow> jsstring" where
  "str s = map (\<lambda>c. of_nat (of_char c)) s"

text \<open>
  \<open>String.prototype.endsWith\<close> with the default end position: the search string is
  compared with the last \<open>length s\<close> code units, and a longer search string never matches.
\<close>

definition endsWith :: "jsstring \<Rightarrow> jsstring \<Rightarrow> bool" where
  "endsWith t s = (length s \<le> length t \<and> drop (length t - length s) t = s)"

subsection \<open>Numbers: \<open>Number(string)\<close>\<close>

text \<open>
  A number value is a binary64 double: NaN, an infinity, the negative zero, or a finite
  double, which is kept as the rational number it denotes (\<open>Num 0\<close> is the positive
  zero). A conversion from a literal rounds the mathematical value of the literal to
  the nearest double, ties to the even significand, and overflows to an infinity.
\<close>

datatype jsnum = NaN | PosInf | NegInf | NegZero | Num rat

definition isNaN :: "jsnum \<Rightarrow> bool" where
  "isNaN n = (n = NaN)"

text \<open>\<open>StrWhiteSpaceChar\<close>: the white space and line terminator code points of ECMAScript.\<close>

definition is_StrWhiteSpaceChar :: "jschar \<Rightarrow> bool" where
  "is_StrWhiteSpaceChar c =
     (c = 0x9 \<or> c = 0xA \<or> c = 0xB \<or> c = 0xC \<or> c = 0xD \<or> c = 0x20 \<or> c = 0xA0
      \<or> c = 0x1680 \<or> (0x2000 \<le> c \<and> c \<le> 0x200A) \<or> c = 0x2028 \<or> c = 0x2029
      \<or> c = 0x202F \<or> c = 0x205F \<or> c = 0x3000 \<or> c = 0xFEFF)"

definition trimString :: "jsstring \<Rightarrow> jsstring" where
  "trimString s =
     rev (dropWhile is_StrWhiteSpaceChar (rev (dropWhile is_StrWhiteSpaceChar s)))"

definition is_DecimalDigit :: "jschar \<Rightarrow> bool" where
  "is_DecimalDigit c = (0x30 \<le> c \<and> c \<le> 0x39)"

definition is_HexDigit :: "jschar \<Rightarrow> bool" where
  "is_HexDigit c =
     (is_DecimalDigit c \<or> (0x41 \<le> c \<and> c \<le> 0x46) \<or> (0x61 \<le> c \<and> c \<le> 0x66))"

definition is_OctalDigit :: "jschar \<Rightarrow> bool" where
  "is_OctalDigit c = (0x30 \<le> c \<and> c \<le> 0x37)"

definition is_BinaryDigit :: "jschar \<Rightarrow> bool" where
  "is_BinaryDigit c = (c = 0x30 \<or> c = 0x31)"

definition digit_value :: "jschar \<Rightarrow> int" where
  "digit_value c =
     (if 0x61 \<le> c then uint c - 87 else if 0x41 \<le> c then uint c - 55 else uint c - 48)"

definition digits_value :: "int \<Rightarrow> jsstring \<Rightarrow> int" where
  "digits_value radix cs = foldl (\<lambda>n c. n * radix + digit_value c) 0 cs"

text \<open>\<open>pow2_le_ratio e a b\<close> says that \<open>2^e \<le> a / b\<close>, for a positive \<open>b\<close>.\<close>

definition pow2_le_ratio :: "int \<Rightarrow> int \<Rightarrow> int \<Rightarrow> bool" where
  "pow2_le_ratio e a b = (if 0 \<le> e then b * 2 ^ nat e \<le> a else b \<le> a * 2 ^ nat (- e))"

text \<open>
  The largest exponent reached from \<open>e\<close> by adding some of the steps, in order, such
  that two to that exponent stays at most \<open>a / b\<close>.
\<close>

fun largest_exponent :: "int list \<Rightarrow> int \<Rightarrow> int \<Rightarrow> int \<Rightarrow> int" where
  "largest_exponent [] e a b = e"
| "largest_exponent (s # ss) e a b =
     (if pow2_le_ratio (e + s) a b then largest_exponent ss (e + s) a b
      else largest_exponent ss e a b)"

text \<open>
  \<open>floor_log2 a b\<close> is the integer \<open>e\<close> with \<open>2^e \<le> a / b < 2^(e + 1)\<close>, for a ratio
  from \<open>2^(-1075)\<close> up to \<open>2^1024\<close>: a binary search through the exponents from \<open>-1075\<close>.
\<close>

definition floor_log2 :: "int \<Rightarrow> int \<Rightarrow> int" where
  "floor_log2 a b =
     largest_exponent [2048, 1024, 512, 256, 128, 64, 32, 16, 8, 4, 2, 1] (- 1075) a b"

text \<open>The integer nearest to \<open>n / d\<close>; of two nearest integers, the even one.\<close>

definition round_half_even :: "int \<Rightarrow> int \<Rightarrow> int" where
  "round_half_even n d =
     (let q = n div d; r = n mod d
      in if 2 * r < d then q
         else if d < 2 * r then q + 1
         else if even q then q else q + 1)"

definition pow2 :: "int \<Rightarrow> rat" where
  "pow2 k = (if 0 \<le> k then 2 ^ nat k else 1 / 2 ^ nat (- k))"

text \<open>
  The Number value for the mathematical value \<open>a / b\<close> (\<open>a\<close> not negative, \<open>b\<close>
  positive). A value of \<open>2^1024\<close> or more is the positive infinity. A value of at most
  \<open>2^(-1075)\<close>, half the least positive double, is the positive zero. Otherwise a double
  in the binade of \<open>2^e\<close> is a multiple of \<open>2^(e - 52)\<close>, and of \<open>2^(-1074)\<close> below the
  normal range; the value is rounded to the nearest such multiple, and rounding up to
  \<open>2^1024\<close> gives the positive infinity.
\<close>

definition Number_value :: "int \<Rightarrow> int \<Rightarrow> jsnum" where
  "Number_value a b =
     (if a = 0 then Num 0
      else if b * 2 ^ 1024 \<le> a then PosInf
      else if a * 2 ^ 1075 \<le> b then Num 0
      else
        let e = floor_log2 a b;
            q = max e (- 1022) - 52;
            n = (if 0 \<le> q then round_half_even a (b * 2 ^ nat q)
                 else round_half_even (a * 2 ^ nat (- q)) b);
            v = of_int n * pow2 q
        in if 2 ^ 1024 \<le> v then PosInf else Num v)"

text \<open>
  The Number value of the decimal literal \<open>ip.fp\<close> times ten to the \<open>e\<close>. The literal
  is rounded correctly whatever its number of digits.
\<close>

definition decimal_Number :: "jsstring \<Rightarrow> jsstring \<Rightarrow> int \<Rightarrow> jsnum" where
  "decimal_Number ip fp e =
     (let m = digits_value 10 (ip @ fp);
          k = e - int (length fp)
      in if 0 \<le> k then Number_value (m * 10 ^ nat k) 1
         else Number_value m (10 ^ nat (- k)))"

definition DecimalDigits :: "jsstring \<Rightarrow> int option" where
  "DecimalDigits cs =
     (if cs \<noteq> [] \<and> list_all is_DecimalDigit cs then Some (digits_value 10 cs) else None)"

definition SignedInteger :: "jsstring \<Rightarrow> int option" where
  "SignedInteger cs =
     (case cs of
        [] \<Rightarrow> None
      | c # r \<Rightarrow>
          if c = 0x2B then DecimalDigits r
          else if c = 0x2D then map_option (\<lambda>n. - n) (DecimalDigits r)
          else DecimalDigits cs)"

text \<open>An optional exponent part that must reach the end of the literal.\<close>

definition ExponentPart_opt :: "jsstring \<Rightarrow> int option" where
  "ExponentPart_opt cs =
     (case cs of
        [] \<Rightarrow> Some 0
      | c # r \<Rightarrow> if c = 0x65 \<or> c = 0x45 then SignedInteger r else None)"

definition StrUnsignedDecimalLiteral :: "jsstring \<Rightarrow> jsnum option" where
  "StrUnsignedDecimalLiteral cs =
     (if cs = str ''Infinity'' then Some PosInf
      else
        let ip = takeWhile is_DecimalDigit cs;
            r1 = dropWhile is_DecimalDigit cs;
            dot = (r1 \<noteq> [] \<and> hd r1 = 0x2E);
            fp = (if dot then takeWhile is_DecimalDigit (tl r1) else []);
            r2 = (if dot then dropWhile is_DecimalDigit (tl r1) else r1)
        in if ip = [] \<and> fp = [] then None
           else map_option (\<lambda>e. decimal_Number ip fp e) (ExponentPart_opt r2))"

text \<open>The sign of a number is flipped; the two zeros are each other's negation.\<close>

definition negate :: "jsnum \<Rightarrow> jsnum" where
  "negate n =
     (case n of
        NaN \<Rightarrow> NaN
      | PosInf \<Rightarrow> NegInf
      | NegInf \<Rightarrow> PosInf
      | NegZero \<Rightarrow> Num 0
      | Num r \<Rightarrow> if r = 0 then NegZero else Num (- r))"

definition StrDecimalLiteral :: "jsstring \<Rightarrow> jsnum option" where
  "StrDecimalLiteral cs =
     (case cs of
        [] \<Rightarrow> None
      | c # r \<Rightarrow>
          if c = 0x2B then StrUnsignedDecimalLiteral r
          else if c = 0x2D then map_option negate (StrUnsignedDecimalLiteral r)
          else StrUnsignedDecimalLiteral cs)"

text \<open>\<open>0x\<close>, \<open>0o\<close> and \<open>0b\<close> literals take no sign.\<close>

definition NonDecimalIntegerLiteral :: "jsstring \<Rightarrow> int option" where
  "NonDecimalIntegerLiteral cs =
     (case cs of
        z # p # ds \<Rightarrow>
          if z \<noteq> 0x30 \<or> ds = [] then None
          else if (p = 0x78 \<or> p = 0x58) \<and> list_all is_HexDigit ds
            then Some (digits_value 16 ds)
          else if (p = 0x6F \<or> p = 0x4F) \<and> list_all is_OctalDigit ds
            then Some (digits_value 8 ds)
          else if (p = 0x62 \<or> p = 0x42) \<and> list_all is_BinaryDigit ds
            then Some (digits_value 2 ds)
          else None
      | _ \<Rightarrow> None)"

text \<open>
  \<open>StringToNumber\<close>: white space is trimmed on both sides; the empty rest is \<open>+0\<close>;
  a rest that is no numeric literal is NaN.
\<close>

definition StringToNumber :: "jsstring \<Rightarrow> jsnum" where
  "StringToNumber s =
     (let t = trimString s in
      if t = [] then Num 0
      else case NonDecimalIntegerLiteral t of
             Some n \<Rightarrow> Number_value n 1
           | None \<Rightarrow> (case StrDecimalLiteral t of Some v \<Rightarrow> v | None \<Rightarrow> NaN))"

text \<open>\<open>Number(msg)\<close> for a string argument.\<close>

definition Number :: "jsstring \<Rightarrow> jsnum" where
  "Number msg = StringToNumber msg"

subsection \<open>Values, \<open>JSON.parse\<close> and \<open>Object.entries\<close>\<close>

text \<open>
  The values the handlers can hold. An object is its list of own properties in creation
  order, with distinct keys; an array is the list of its elements.
\<close>

datatype jsval =
    JUndefined
  | JNull
  | JBool bool
  | JNum jsnum
  | JStr jsstring
  | JArr "jsval list"
  | JObj "(jsstring \<times> jsval) list"

datatype js_error = SyntaxError | TypeError

datatype token =
  TLBrace | TRBrace | TLBracket | TRBracket | TColon | TComma | TValue jsval

definition is_JSONWhiteSpace :: "jschar \<Rightarrow> bool" where
  "is_JSONWhiteSpace c = (c = 0x9 \<or> c = 0xA \<or> c = 0xD \<or> c = 0x20)"

definition JSONEscape :: "jschar \<Rightarrow> jschar option" where
  "JSONEscape e =
     (if e = 0x22 \<or> e = 0x5C \<or> e = 0x2F then Some e
      else if e = 0x62 then Some 0x8
      else if e = 0x66 then Some 0xC
      else if e = 0x6E then Some 0xA
      else if e = 0x72 then Some 0xD
      else if e = 0x74 then Some 0x9
      else None)"

text \<open>
  The characters after an opening quote, up to the closing one: the string read (\<open>acc\<close>
  holds it reversed) and the rest of the text. Control characters below U+0020 and
  unknown escapes are syntax errors.
\<close>

fun JSONString :: "jsstring \<Rightarrow> jsstring \<Rightarrow> (jsstring \<times> jsstring) option" where
  "JSONString acc [] = None"
| "JSONString acc (c # cs) =
     (if c = 0x22 then Some (rev acc, cs)
      else if c = 0x5C then
        (case cs of
           [] \<Rightarrow> None
         | e # r \<Rightarrow>
             if e = 0x75 then
               (case r of
                  h1 # h2 # h3 # h4 # r' \<Rightarrow>
                    if list_all is_HexDigit [h1, h2, h3, h4]
                    then JSONString (of_int (digits_value 16 [h1, h2, h3, h4]) # acc) r'
                    else None
                | _ \<Rightarrow> None)
             else (case JSONEscape e of
                     None \<Rightarrow> None
                   | Some x \<Rightarrow> JSONString (x # acc) r))
      else if c < 0x20 then None
      else JSONString (c # acc) cs)"

definition is_number_char :: "jschar \<Rightarrow> bool" where
  "is_number_char c = (is_DecimalDigit c \<or> c = 0x2B \<or> c = 0x2D \<or> c = 0x2E \<or> c = 0x45 \<or> c = 0x65)"

text \<open>
  A JSON number: an optional minus, an integer part without a leading zero, an optional
  fraction with at least one digit, an optional exponent.
\<close>

definition JSONNumber :: "jsstring \<Rightarrow> jsnum option" where
  "JSONNumber cs =
     (let neg = (cs \<noteq> [] \<and> hd cs = 0x2D);
          r0 = (if neg then tl cs else cs);
          ip = takeWhile is_DecimalDigit r0;
          r1 = dropWhile is_DecimalDigit r0;
          dot = (r1 \<noteq> [] \<and> hd r1 = 0x2E);
          fp = (if dot then takeWhile is_DecimalDigit (tl r1) else []);
          r2 = (if dot then dropWhile is_DecimalDigit (tl r1) else r1)
      in if ip = [] \<or> (hd ip = 0x30 \<and> length ip \<noteq> 1) \<or> (dot \<and> fp = []) then None
         else map_option
                (\<lambda>e. if neg then negate (decimal_Number ip fp e) else decimal_Number ip fp e)
                (ExponentPart_opt r2))"

lemma JSONString_length:
  "JSONString acc cs = Some (s, r) \<Longrightarrow> length r < length cs"
proof (induction acc cs arbitrary: s r rule: JSONString.induct)
  case (1 acc)
  then show ?case by simp
next
  case (2 acc c cs)
  show ?case
  proof (cases "c = 0x22")
    case True
    with "2.prems" show ?thesis by simp
  next
    case quote: False
    show ?thesis
    proof (cases "c = 0x5C")
      case False
      with quote "2.prems" "2.IH"(3) show ?thesis
        by (fastforce split: if_splits)
    next
      case True
      with quote "2.prems" obtain e r0 where cs: "cs = e # r0"
        by (cases cs) auto
      show ?thesis
      proof (cases "e = 0x75")
        case False
        with quote True cs "2.prems" "2.IH"(2) show ?thesis
          by (fastforce split: option.splits)
      next
        case u: True
        with quote True cs "2.prems" obtain h1 h2 h3 h4 r' where
          r0: "r0 = h1 # h2 # h3 # h4 # r'"
          by (auto split: list.splits)
        with quote True cs u "2.prems" "2.IH"(1) show ?thesis
          by (fastforce split: if_splits)
      qed
    qed
  qed
qed

text \<open>
  The token at the start of a text that does not start with white space, and the rest of
  the text. A number is the longest run of number characters and must be a JSON number
  as a whole.
\<close>

definition JSON_token :: "jsstring \<Rightarrow> (token \<times> jsstring) option" where
  "JSON_token text =
     (case text of
        [] \<Rightarrow> None
      | c # cs \<Rightarrow>
          if c = 0x7B then Some (TLBrace, cs)
          else if c = 0x7D then Some (TRBrace, cs)
          else if c = 0x5B then Some (TLBracket, cs)
          else if c = 0x5D then Some (TRBracket, cs)
          else if c = 0x3A then Some (TColon, cs)
          else if c = 0x2C then Some (TComma, cs)
          else if c = 0x22 then
            (case JSONString [] cs of
               None \<Rightarrow> None
             | Some (s, r) \<Rightarrow> Some (TValue (JStr s), r))
          else if is_number_char c then
            (case JSONNumber (c # takeWhile is_number_char cs) of
               None \<Rightarrow> None
             | Some n \<Rightarrow> Some (TValue (JNum n), dropWhile is_number_char cs))
          else if c # take 3 cs = str ''null'' then Some (TValue JNull, drop 3 cs)
          else if c # take 3 cs = str ''true'' then Some (TValue (JBool True), drop 3 cs)
          else if c # take 4 cs = str ''false'' then Some (TValue (JBool False), drop 4 cs)
          else None)"

lemma JSON_token_length:
  assumes "JSON_token text = Some (t, r)"
  shows "length r < length text"
proof (cases "text")
  case Nil
  with assms show ?thesis by (simp add: JSON_token_def)
next
  case (Cons c cs)
  have "length (dropWhile is_number_char cs) < Suc (length cs)"
    by (simp add: le_imp_less_Suc length_dropWhile_le)
  with assms Cons show ?thesis
    by (auto simp: JSON_token_def split: if_splits option.splits dest: JSONString_length)
qed

function JSON_lex :: "jsstring \<Rightarrow> token list option" where
  "JSON_lex [] = Some []"
| "JSON_lex (c # cs) =
     (if is_JSONWhiteSpace c then JSON_lex cs
      else case JSON_token (c # cs) of
             None \<Rightarrow> None
           | Some (t, r) \<Rightarrow> map_option ((#) t) (JSON_lex r))"
  by pat_completeness auto
termination
proof (relation "measure length")
  show "wf (measure length)" by simp
next
  fix c :: jschar and cs :: jsstring
  show "(cs, c # cs) \<in> measure length" by simp
next
  fix c :: jschar and cs r :: jsstring and t x2 x
  assume "JSON_token (c # cs) = Some x2" and "(t, r) = x2"
  then have "JSON_token (c # cs) = Some (t, r)" by simp
  then show "(r, c # cs) \<in> measure length"
    using JSON_token_length by fastforce
qed

text \<open>
  \<open>CreateDataProperty\<close> on the property list: a key already present keeps its place and
  takes the new value, a new key goes to the end.
\<close>

definition CreateDataProperty ::
  "(jsstring \<times> jsval) list \<Rightarrow> jsstring \<Rightarrow> jsval \<Rightarrow> (jsstring \<times> jsval) list" where
  "CreateDataProperty ps k v =
     (if k \<in> fst ` set ps then map (\<lambda>(k', v'). if k' = k then (k', v) else (k', v')) ps
      else ps @ [(k, v)])"

text \<open>
  The parser runs over the tokens with a stack of the containers that are still open:
  an array with the elements read so far, an object with its properties and the key
  that waits for its value.
\<close>

datatype frame =
    ArrayFrame "jsval list"
  | ObjectFrame "(jsstring \<times> jsval) list" "jsstring option"

datatype expect =
    ExpValue | ExpValueOrClose | ExpKeyOrClose | ExpKey | ExpColon | ExpCommaOrClose
  | ExpEnd jsval

fun complete :: "jsval \<Rightarrow> frame list \<Rightarrow> (expect \<times> frame list) option" where
  "complete v [] = Some (ExpEnd v, [])"
| "complete v (ArrayFrame xs # st) = Some (ExpCommaOrClose, ArrayFrame (xs @ [v]) # st)"
| "complete v (ObjectFrame ps (Some k) # st) =
     Some (ExpCommaOrClose, ObjectFrame (CreateDataProperty ps k v) None # st)"
| "complete v (ObjectFrame ps None # st) = None"

fun close_array :: "frame list \<Rightarrow> (expect \<times> frame list) option" where
  "close_array (ArrayFrame xs # st) = complete (JArr xs) st"
| "close_array _ = None"

fun close_object :: "frame list \<Rightarrow> (expect \<times> frame list) option" where
  "close_object (ObjectFrame ps None # st) = complete (JObj ps) st"
| "close_object _ = None"

fun open_key :: "jsstring \<Rightarrow> frame list \<Rightarrow> (expect \<times> frame list) option" where
  "open_key k (ObjectFrame ps None # st) = Some (ExpColon, ObjectFrame ps (Some k) # st)"
| "open_key k _ = None"

fun after_comma :: "frame list \<Rightarrow> (expect \<times> frame list) option" where
  "after_comma (ArrayFrame xs # st) = Some (ExpValue, ArrayFrame xs # st)"
| "after_comma (ObjectFrame ps None # st) = Some (ExpKey, ObjectFrame ps None # st)"
| "after_comma _ = None"

fun JSON_value :: "bool \<Rightarrow> frame list \<Rightarrow> token \<Rightarrow> (expect \<times> frame list) option" where
  "JSON_value may_close st (TValue v) = complete v st"
| "JSON_value may_close st TLBrace = Some (ExpKeyOrClose, ObjectFrame [] None # st)"
| "JSON_value may_close st TLBracket = Some (ExpValueOrClose, ArrayFrame [] # st)"
| "JSON_value may_close st TRBracket = (if may_close then close_array st else None)"
| "JSON_value may_close st _ = None"

fun JSON_key :: "bool \<Rightarrow> frame list \<Rightarrow> token \<Rightarrow> (expect \<times> frame list) option" where
  "JSON_key may_close st (TValue (JStr k)) = open_key k st"
| "JSON_key may_close st TRBrace = (if may_close then close_object st else None)"
| "JSON_key may_close st _ = None"

fun JSON_step :: "expect \<times> frame list \<Rightarrow> token \<Rightarrow> (expect \<times> frame list) option" where
  "JSON_step (ExpValue, st) t = JSON_value False st t"
| "JSON_step (ExpValueOrClose, st) t = JSON_value True st t"
| "JSON_step (ExpKeyOrClose, st) t = JSON_key True st t"
| "JSON_step (ExpKey, st) t = JSON_key False st t"
| "JSON_step (ExpColon, st) t = (if t = TColon then Some (ExpValue, st) else None)"
| "JSON_step (ExpCommaOrClose, st) t =
     (if t = TComma then after_comma st
      else if t = TRBracket then close_array st
      else if t = TRBrace then close_object st
      else None)"
| "JSON_step (ExpEnd v, st) t = None"

fun JSON_run :: "expect \<times> frame list \<Rightarrow> token list \<Rightarrow> (expect \<times> frame list) option" where
  "JSON_run s [] = Some s"
| "JSON_run s (t # ts) = (case JSON_step s t of None \<Rightarrow> None | Some s' \<Rightarrow> JSON_run s' ts)"

text \<open>
  \<open>JSON.parse(text)\<close>: the value, or the \<open>SyntaxError\<close> it throws. The text must hold
  exactly one value.
\<close>

definition JSON_parse :: "jsstring \<Rightarrow> js_error + jsval" where
  "JSON_parse text =
     (case JSON_lex text of
        None \<Rightarrow> Inl SyntaxError
      | Some ts \<Rightarrow>
          (case JSON_run (ExpValue, []) ts of
             Some (ExpEnd v, []) \<Rightarrow> Inr v
           | _ \<Rightarrow> Inl SyntaxError))"

text \<open>
  An array index is the canonical decimal form of an integer below \<open>2^32 - 1\<close>. The own
  property keys of an object are enumerated with the array indices first, in ascending
  numeric order, then the other keys in creation order.
\<close>

definition is_array_index :: "jsstring \<Rightarrow> bool" where
  "is_array_index k =
     (k \<noteq> [] \<and> list_all is_DecimalDigit k \<and> (hd k \<noteq> 0x30 \<or> length k = 1)
      \<and> digits_value 10 k < 2 ^ 32 - 1)"

definition own_entries :: "(jsstring \<times> jsval) list \<Rightarrow> (jsstring \<times> jsval) list" where
  "own_entries ps =
     sort_key (\<lambda>p. digits_value 10 (fst p)) (filter (\<lambda>p. is_array_index (fst p)) ps)
     @ filter (\<lambda>p. \<not> is_array_index (fst p)) ps"

function ToString_nat :: "nat \<Rightarrow> jsstring" where
  "ToString_nat n =
     (if n < 10 then [of_nat (48 + n)] else ToString_nat (n div 10) @ [of_nat (48 + n mod 10)])"
  by pat_completeness auto
termination
  by (relation "measure id") auto

text \<open>
  \<open>Object.entries(v)\<close>: \<open>undefined\<close> and \<open>null\<close> have no object form and throw a
  \<open>TypeError\<close>; a boolean or a number has no own enumerable property; a string has one
  per code unit and an array one per element, keyed by the index.
\<close>

definition Object_entries :: "jsval \<Rightarrow> js_error + (jsstring \<times> jsval) list" where
  "Object_entries v =
     (case v of
        JUndefined \<Rightarrow> Inl TypeError
      | JNull \<Rightarrow> Inl TypeError
      | JBool b \<Rightarrow> Inr []
      | JNum n \<Rightarrow> Inr []
      | JStr s \<Rightarrow> Inr (map (\<lambda>(i, c). (ToString_nat i, JStr [c])) (enumerate 0 s))
      | JArr xs \<Rightarrow> Inr (map (\<lambda>(i, x). (ToString_nat i, x)) (enumerate 0 xs))
      | JObj ps \<Rightarrow> Inr (own_entries ps))"

text \<open>\<open>JSON.parse\<close> returned a JSON object, not a primitive or an array.\<close>

definition is_object :: "jsval \<Rightarrow> bool" where
  "is_object v = (case v of JObj ps \<Rightarrow> True | _ \<Rightarrow> False)"

section \<open>The platform\<close>

subsection \<open>Configuration\<close>

text \<open>
  \<open>PluginConfig\<close>. An optional field is \<open>None\<close> when it is absent or \<open>null\<close>: the
  source reads the options only through \<open>?.\<close>, \<open>??\<close> and truthiness tests, which treat
  the two alike.
\<close>

datatype CleanMode = Vacuum | Mop
datatype RunMode = Idle | Cleaning
datatype OperationalState = Charging | Running | Docked | Paused | Error

record mqtt_config =
  url :: jsstring
  username :: "jsstring option"
  password :: "jsstring option"
  topicPrefix :: jsstring
  "identifier" :: jsstring

record rvc_config =
  serverMode :: "bool option"
  defaultCleanMode :: "CleanMode option"
  mapServiceAreasFromSegments :: "bool option"
  fanPresetForVacuum :: "jsstring option"
  operationModePresetVacuum :: "jsstring option"
  fanPresetForMop :: "jsstring option"
  waterPresetForMop :: "jsstring option"
  operationModePresetMop :: "jsstring option"

record PluginConfig =
  name :: "jsstring option"
  mqtt :: mqtt_config
  rvc :: "rvc_config option"

text \<open>\<open>cfg?.rvc?.field\<close>\<close>

definition rvc_option :: "(rvc_config \<Rightarrow> 'a option) \<Rightarrow> PluginConfig \<Rightarrow> 'a option" where
  "rvc_option field c = (case rvc c of None \<Rightarrow> None | Some r \<Rightarrow> field r)"

text \<open>\<open>x ?? d\<close>\<close>

definition nullish :: "'a option \<Rightarrow> 'a option \<Rightarrow> 'a option" where
  "nullish x d = (case x of None \<Rightarrow> d | Some v \<Rightarrow> Some v)"

subsection \<open>Effects on the collaborators\<close>

text \<open>
  The MQTT client, the \<open>RoboticVacuumCleaner\<close> device and the logger belong to the host
  and to libraries. A handler is modelled by the new state of the platform and the
  calls it makes on them, in order. \<open>Stringified v\<close> stands for the text
  \<open>JSON.stringify(v)\<close>. A call on a collaborator returns normally, and the logger is
  the \<open>Logger\<close> that the constructor is given, so \<open>this.log?.warn?.(...)\<close> and
  \<open>this.log?.info?.(...)\<close> make their call. \<open>LogWarn text e\<close> is the warning whose
  message is \<open>text\<close> followed by the exception \<open>e\<close>. The exceptions of the model are those
  of \<open>JSON.parse\<close> and \<open>Object.entries\<close>; both are raised inside the \<open>try\<close> block of
  \<open>onMqttMessage\<close> only, so a handler has no result other than a state and its calls.
\<close>

datatype service_area = ServiceArea (area_id: jsstring) (area_name: jsval)

datatype mqtt_value = Text jsstring | Stringified jsval

datatype effect =
    CreateDevice jsstring jsstring
  | Connect jsstring "jsstring option" "jsstring option"
  | Subscribe jsstring
  | Publish jsstring mqtt_value
  | UpdateBattery jsnum
  | UpdateOperationalState OperationalState
  | UpdateCleanMode CleanMode
  | UpdateRunMode RunMode
  | UpdateServiceAreas "service_area list"
  | LogInfo jsstring
  | LogWarn jsstring js_error

record ValetudoPlatform =
  cfg :: PluginConfig
  base :: jsstring
  watertank :: bool
  segments :: jsval

subsection \<open>Construction, subscription, publishing\<close>

definition constructor :: "PluginConfig \<Rightarrow> ValetudoPlatform \<times> effect list" where
  "constructor config =
     (let deviceName = (case name config of
                          None \<Rightarrow> str ''Valetudo RVC''
                        | Some n \<Rightarrow> if n = [] then str ''Valetudo RVC'' else n);
          server = (case rvc_option serverMode config of None \<Rightarrow> True | Some b \<Rightarrow> b);
          m = mqtt config;
          defaultMode = (case rvc_option defaultCleanMode config of
                           None \<Rightarrow> Vacuum
                         | Some d \<Rightarrow> d)
      in (\<lparr>cfg = config,
           base = topicPrefix m @ str ''/'' @ identifier m,
           watertank = False,
           segments = JObj []\<rparr>,
          [CreateDevice deviceName (if server then str ''server'' else str ''matter''),
           Connect (url m) (username m) (password m),
           UpdateCleanMode defaultMode,
           UpdateRunMode Idle]))"

definition sub :: "ValetudoPlatform \<Rightarrow> jsstring \<Rightarrow> effect list" where
  "sub p suffix = [Subscribe (base p @ str ''/'' @ suffix)]"

definition publish :: "ValetudoPlatform \<Rightarrow> jsstring \<Rightarrow> jsval \<Rightarrow> effect list" where
  "publish p suffix payload =
     (let v = (case payload of JStr s \<Rightarrow> Text s | _ \<Rightarrow> Stringified payload)
      in [Publish (base p @ str ''/'' @ suffix) v])"

definition onMqttConnect :: "ValetudoPlatform \<Rightarrow> effect list" where
  "onMqttConnect p =
     sub p (str ''BatteryStateAttribute/level'')
     @ sub p (str ''BatteryStateAttribute/status'')
     @ sub p (str ''DockStatusStateAttribute/status'')
     @ sub p (str ''StatusStateAttribute/error'')
     @ sub p (str ''AttachmentStateAttribute/watertank'')
     @ sub p (str ''FanSpeedControlCapability/preset'')
     @ sub p (str ''WaterUsageControlCapability/preset'')
     @ sub p (str ''MapData/segments'')"

text \<open>The callbacks registered on the device for run mode, pause, resume and dock.\<close>

definition onRunModeChange :: "ValetudoPlatform \<Rightarrow> RunMode \<Rightarrow> effect list" where
  "onRunModeChange p target =
     (let op = (if target = Cleaning then str ''START'' else str ''STOP'')
      in publish p (str ''BasicControlCapability/operation/set'') (JStr op))"

definition onPause :: "ValetudoPlatform \<Rightarrow> effect list" where
  "onPause p = publish p (str ''BasicControlCapability/operation/set'') (JStr (str ''PAUSE''))"

definition onResume :: "ValetudoPlatform \<Rightarrow> effect list" where
  "onResume p = publish p (str ''BasicControlCapability/operation/set'') (JStr (str ''START''))"

definition onDock :: "ValetudoPlatform \<Rightarrow> effect list" where
  "onDock p = publish p (str ''BasicControlCapability/operation/set'') (JStr (str ''HOME''))"

subsection \<open>\<open>onMqttMessage\<close>\<close>

text \<open>
  The body of the \<open>try\<close> block of the \<open>MapData/segments\<close> branch: the exception it ends
  with, if any, the state it leaves and the calls it made before.
\<close>

definition segments_try ::
  "ValetudoPlatform \<Rightarrow> jsstring \<Rightarrow> js_error option \<times> ValetudoPlatform \<times> effect list" where
  "segments_try p msg =
     (case JSON_parse msg of
        Inl e \<Rightarrow> (Some e, p, [])
      | Inr v \<Rightarrow>
          let p' = p\<lparr>segments := v\<rparr> in
          if rvc_option mapServiceAreasFromSegments (cfg p') \<noteq> Some False then
            (case Object_entries (segments p') of
               Inl e \<Rightarrow> (Some e, p', [])
             | Inr es \<Rightarrow>
                 let areas = map (\<lambda>(i, n). ServiceArea i n) es
                 in (None, p', [UpdateServiceAreas areas]))
          else (None, p', []))"

definition onMqttMessage ::
  "ValetudoPlatform \<Rightarrow> jsstring \<Rightarrow> jsstring \<Rightarrow> ValetudoPlatform \<times> effect list" where
  "onMqttMessage p topic msg =
     (if endsWith topic (str ''BatteryStateAttribute/level'') then
        (let pct = Number msg
         in if \<not> isNaN pct then (p, [UpdateBattery pct]) else (p, []))
      else if endsWith topic (str ''BatteryStateAttribute/status'') then
        (if msg = str ''charging'' then (p, [UpdateOperationalState Charging]) else (p, []))
      else if endsWith topic (str ''DockStatusStateAttribute/status'') then
        (if msg = str ''cleaning'' then (p, [UpdateOperationalState Running])
         else if msg = str ''idle'' then (p, [UpdateOperationalState Docked])
         else if msg = str ''pause'' then (p, [UpdateOperationalState Paused])
         else if msg = str ''error'' then (p, [UpdateOperationalState Error])
         else (p, []))
      else if endsWith topic (str ''StatusStateAttribute/error'') then
        (if msg \<noteq> [] \<and> msg \<noteq> str ''{}'' \<and> msg \<noteq> str ''null''
         then (p, [UpdateOperationalState Error])
         else (p, []))
      else if endsWith topic (str ''AttachmentStateAttribute/watertank'') then
        (p\<lparr>watertank := (msg = str ''true'' \<or> msg = str ''1'')\<rparr>, [])
      else if endsWith topic (str ''FanSpeedControlCapability/preset'') then (p, [])
      else if endsWith topic (str ''WaterUsageControlCapability/preset'') then (p, [])
      else if endsWith topic (str ''MapData/segments'') then
        (case segments_try p msg of
           (Some e, p', fx) \<Rightarrow> (p', fx @ [LogWarn (str ''Invalid segments JSON: '') e])
         | (None, p', fx) \<Rightarrow> (p', fx))
      else (p, []))"

subsection \<open>\<open>applyCleanMode\<close> and \<open>cleanServiceAreas\<close>\<close>

text \<open>\<open>if (preset) this.publish(suffix, preset)\<close>: the empty string is falsy too.\<close>

definition publish_if :: "ValetudoPlatform \<Rightarrow> jsstring \<Rightarrow> jsstring option \<Rightarrow> effect list" where
  "publish_if p suffix preset =
     (case preset of
        None \<Rightarrow> []
      | Some s \<Rightarrow> if s = [] then [] else publish p suffix (JStr s))"

definition applyCleanMode ::
  "ValetudoPlatform \<Rightarrow> CleanMode \<Rightarrow> ValetudoPlatform \<times> effect list" where
  "applyCleanMode p mode =
     (let fanVac = nullish (rvc_option fanPresetForVacuum (cfg p)) (Some (str ''standard''));
          opVac = rvc_option operationModePresetVacuum (cfg p);
          fanMop = nullish (rvc_option fanPresetForMop (cfg p)) None;
          waterMop = nullish (rvc_option waterPresetForMop (cfg p)) (Some (str ''medium''));
          opMop = rvc_option operationModePresetMop (cfg p)
      in case mode of
           Vacuum \<Rightarrow>
             (p, publish_if p (str ''OperationModeControlCapability/preset/set'') opVac
                 @ publish_if p (str ''FanSpeedControlCapability/preset/set'') fanVac
                 @ publish p (str ''WaterUsageControlCapability/preset/set'') (JStr (str ''off'')))
         | Mop \<Rightarrow>
             if \<not> watertank p then
               (p, [LogInfo (str ''Mop selected but watertank is not attached; ignoring'')])
             else
               (p, publish_if p (str ''OperationModeControlCapability/preset/set'') opMop
                   @ publish_if p (str ''FanSpeedControlCapability/preset/set'') fanMop
                   @ publish_if p (str ''WaterUsageControlCapability/preset/set'') waterMop))"

text \<open>The callback registered for a change of clean mode.\<close>

definition onCleanModeChange ::
  "ValetudoPlatform \<Rightarrow> CleanMode \<Rightarrow> ValetudoPlatform \<times> effect list" where
  "onCleanModeChange p mode = applyCleanMode p mode"

text \<open>
  \<open>cleanServiceAreas(areaIds)\<close>, for any value a caller passes. Only an array passes
  \<open>Array.isArray\<close>, and only a non-empty one has a truthy \<open>length\<close>.
\<close>

definition cleanServiceAreas ::
  "ValetudoPlatform \<Rightarrow> jsval \<Rightarrow> ValetudoPlatform \<times> effect list" where
  "cleanServiceAreas p areaIds =
     (case areaIds of
        JArr ids \<Rightarrow>
          if length ids = 0 then (p, [])
          else (p, publish p (str ''MapSegmentationCapability/clean/set'')
                     (JObj [(str ''segment_ids'', areaIds)])
                   @ [UpdateRunMode Cleaning])
      | _ \<Rightarrow> (p, []))"

subsection \<open>Reading the calls of a handler\<close>

text \<open>
  A preset is published when it is present: configured to a string that is not empty,
  since the source tests it for truthiness. \<open>published_on t fx\<close> lists the values that
  the calls \<open>fx\<close> publish on the topic \<open>t\<close>, in order.
\<close>

definition when_present :: "jsstring option \<Rightarrow> (jsstring \<Rightarrow> effect) \<Rightarrow> effect list" where
  "when_present preset f =
     (case preset of None \<Rightarrow> [] | Some s \<Rightarrow> if s = [] then [] else [f s])"

fun published_on :: "jsstring \<Rightarrow> effect list \<Rightarrow> mqtt_value list" where
  "published_on t [] = []"
| "published_on t (Publish t' v # es) =
     (if t' = t then v # published_on t es else published_on t es)"
| "published_on t (e # es) = published_on t es"

subsection \<open>An example installation\<close>

text \<open>
  A configuration with the two required MQTT names and no \<open>rvc\<close> section, so that every
  option takes its default, and a platform that has already stored one segment.
\<close>

definition example_config :: PluginConfig where
  "example_config =
     \<lparr>name = None,
      mqtt = \<lparr>url = str ''mqtt://localhost'', username = None, password = None,
              topicPrefix = str ''valetudo'', identifier = str ''robot''\<rparr>,
      rvc = None\<rparr>"

definition example_platform :: ValetudoPlatform where
  "example_platform =
     \<lparr>cfg = example_config, base = str ''valetudo/robot'', watertank = False,
      segments = JObj [(str ''7'', JStr (str ''Bath''))]\<rparr>"

text \<open>The same platform with the derivation of service areas switched off.\<close>

definition example_platform_no_areas :: ValetudoPlatform where
  "example_platform_no_areas =
     example_platform
       \<lparr>cfg := example_config
          \<lparr>rvc := Some \<lparr>serverMode = None, defaultCleanMode = None,
                         mapServiceAreasFromSegments = Some False,
                         fanPresetForVacuum = None, operationModePresetVacuum = None,
                         fanPresetForMop = None, waterPresetForMop = None,
                         operationModePresetMop = None\<rparr>\<rparr>\<rparr>"

text \<open>A platform with every preset but the water preset configured, and the tank attached.\<close>

definition example_platform_mop :: ValetudoPlatform where
  "example_platform_mop =
     example_platform
       \<lparr>cfg := example_config
          \<lparr>rvc := Some \<lparr>serverMode = None, defaultCleanMode = Some Mop,
                         mapServiceAreasFromSegments = None,
                         fanPresetForVacuum = Some (str ''max''),
                         operationModePresetVacuum = Some (str ''vacuum''),
                         fanPresetForMop = Some (str ''low''),
                         waterPresetForMop = None,
                         operationModePresetMop = Some (str ''mop'')\<rparr>\<rparr>,
        watertank := True\<rparr>"

section \<open>Topic dispatch\<close>

text \<open>
  The handler tests the eight suffixes in order and the first match wins. No suffix ends
  with another one, so a topic matches at most one of them and the order does not matter.
\<close>

lemma endsWith_both:
  assumes "endsWith t a" and "endsWith t b" and "length a \<le> length b"
  shows "endsWith b a"
proof -
  from assms have la: "length a \<le> length t" and lb: "length b \<le> length t"
    and a: "drop (length t - length a) t = a" and b: "drop (length t - length b) t = b"
    by (simp_all add: endsWith_def)
  have "drop (length b - length a) b = drop (length b - length a) (drop (length t - length b) t)"
    by (simp only: b)
  also have "\<dots> = drop (length t - length a) t"
    using assms(3) lb by simp
  finally show ?thesis
    using assms(3) a by (simp add: endsWith_def)
qed

lemma endsWith_exclusive:
  assumes "endsWith t a" and "\<not> endsWith a b" and "\<not> endsWith b a"
  shows "\<not> endsWith t b"
proof
  assume "endsWith t b"
  with assms(1) have "endsWith b a \<or> endsWith a b"
    using endsWith_both [of t a b] endsWith_both [of t b a] by (cases "length a \<le> length b") auto
  with assms(2,3) show False by simp
qed

lemma dock_not_earlier:
  assumes "endsWith topic (str ''DockStatusStateAttribute/status'')"
  shows "\<not> endsWith topic (str ''BatteryStateAttribute/level'')"
    and "\<not> endsWith topic (str ''BatteryStateAttribute/status'')"
  by (rule endsWith_exclusive [OF assms]; simp add: endsWith_def str_def)+

lemma error_not_earlier:
  assumes "endsWith topic (str ''StatusStateAttribute/error'')"
  shows "\<not> endsWith topic (str ''BatteryStateAttribute/level'')"
    and "\<not> endsWith topic (str ''BatteryStateAttribute/status'')"
    and "\<not> endsWith topic (str ''DockStatusStateAttribute/status'')"
  by (rule endsWith_exclusive [OF assms]; simp add: endsWith_def str_def)+

lemma segments_not_earlier:
  assumes "endsWith topic (str ''MapData/segments'')"
  shows "\<not> endsWith topic (str ''BatteryStateAttribute/level'')"
    and "\<not> endsWith topic (str ''BatteryStateAttribute/status'')"
    and "\<not> endsWith topic (str ''DockStatusStateAttribute/status'')"
    and "\<not> endsWith topic (str ''StatusStateAttribute/error'')"
    and "\<not> endsWith topic (str ''AttachmentStateAttribute/watertank'')"
    and "\<not> endsWith topic (str ''FanSpeedControlCapability/preset'')"
    and "\<not> endsWith topic (str ''WaterUsageControlCapability/preset'')"
  by (rule endsWith_exclusive [OF assms]; simp add: endsWith_def str_def)+

lemma onMqttMessage_level:
  assumes "endsWith topic (str ''BatteryStateAttribute/level'')"
  shows "onMqttMessage p topic msg =
           (if \<not> isNaN (Number msg) then (p, [UpdateBattery (Number msg)]) else (p, []))"
  using assms by (simp add: onMqttMessage_def Let_def)

lemma onMqttMessage_dock:
  assumes "endsWith topic (str ''DockStatusStateAttribute/status'')"
  shows "onMqttMessage p topic msg =
           (if msg = str ''cleaning'' then (p, [UpdateOperationalState Running])
            else if msg = str ''idle'' then (p, [UpdateOperationalState Docked])
            else if msg = str ''pause'' then (p, [UpdateOperationalState Paused])
            else if msg = str ''error'' then (p, [UpdateOperationalState Error])
            else (p, []))"
  using assms dock_not_earlier [OF assms] by (simp add: onMqttMessage_def)

lemma onMqttMessage_error:
  assumes "endsWith topic (str ''StatusStateAttribute/error'')"
  shows "onMqttMessage p topic msg =
           (if msg \<noteq> [] \<and> msg \<noteq> str ''{}'' \<and> msg \<noteq> str ''null''
            then (p, [UpdateOperationalState Error]) else (p, []))"
  using assms error_not_earlier [OF assms] by (simp add: onMqttMessage_def)

lemma onMqttMessage_segments:
  assumes "endsWith topic (str ''MapData/segments'')"
  shows "onMqttMessage p topic msg =
           (case segments_try p msg of
              (Some e, p', fx) \<Rightarrow> (p', fx @ [LogWarn (str ''Invalid segments JSON: '') e])
            | (None, p', fx) \<Rightarrow> (p', fx))"
  using assms segments_not_earlier [OF assms] by (simp add: onMqttMessage_def)

section \<open>What \<open>JSON.parse\<close> can return\<close>

text \<open>
  The parser never returns \<open>undefined\<close>, and the only exception it throws is a
  \<open>SyntaxError\<close>.
\<close>

lemma JSON_token_defined:
  "JSON_token cs = Some (t, r) \<Longrightarrow> t \<noteq> TValue JUndefined"
  by (cases cs) (auto simp: JSON_token_def split: if_splits option.splits)

lemma JSON_lex_defined:
  "JSON_lex cs = Some ts \<Longrightarrow> TValue JUndefined \<notin> set ts"
proof (induction cs arbitrary: ts rule: JSON_lex.induct)
  case 1
  then show ?case by simp
next
  case (2 c cs)
  show ?case
  proof (cases "is_JSONWhiteSpace c")
    case True
    with "2.prems" "2.IH"(1) show ?thesis by simp
  next
    case False
    with "2.prems" obtain t r ts' where
      tok: "JSON_token (c # cs) = Some (t, r)" and lex: "JSON_lex r = Some ts'"
      and ts: "ts = t # ts'"
      by (auto split: option.splits)
    from "2.IH"(2) [OF False tok refl lex] JSON_token_defined [OF tok] ts
    show ?thesis by simp
  qed
qed

lemma complete_end:
  "complete v st = Some (ExpEnd w, st') \<Longrightarrow> w = v"
  by (cases "(v, st)" rule: complete.cases) auto

lemma close_array_defined:
  "close_array st = Some (ExpEnd w, st') \<Longrightarrow> w \<noteq> JUndefined"
  by (cases st rule: close_array.cases) (auto dest: complete_end)

lemma close_object_defined:
  "close_object st = Some (ExpEnd w, st') \<Longrightarrow> w \<noteq> JUndefined"
  by (cases st rule: close_object.cases) (auto dest: complete_end)

lemma open_key_continues:
  "open_key k st \<noteq> Some (ExpEnd w, st')"
  by (cases "(k, st)" rule: open_key.cases) auto

lemma after_comma_continues:
  "after_comma st \<noteq> Some (ExpEnd w, st')"
  by (cases st rule: after_comma.cases) auto

lemma JSON_value_defined:
  "JSON_value b st t = Some (ExpEnd w, st') \<Longrightarrow> t \<noteq> TValue JUndefined \<Longrightarrow> w \<noteq> JUndefined"
  by (cases "(b, st, t)" rule: JSON_value.cases)
     (auto dest: complete_end close_array_defined split: if_splits)

lemma JSON_key_defined:
  "JSON_key b st t = Some (ExpEnd w, st') \<Longrightarrow> w \<noteq> JUndefined"
  by (cases "(b, st, t)" rule: JSON_key.cases)
     (auto simp: open_key_continues dest: close_object_defined split: if_splits)

lemma JSON_step_defined:
  assumes "JSON_step s t = Some (ExpEnd w, st')" and "t \<noteq> TValue JUndefined"
  shows "w \<noteq> JUndefined"
  using assms
  by (cases "(s, t)" rule: JSON_step.cases)
     (auto simp: after_comma_continues
           dest: JSON_value_defined JSON_key_defined close_array_defined close_object_defined
           split: if_splits)

lemma JSON_step_end: "JSON_step (ExpEnd v, st) t = None"
  by simp

lemma JSON_run_end: "JSON_run (ExpEnd v, st) ts = (if ts = [] then Some (ExpEnd v, st) else None)"
  by (cases ts) simp_all

lemma JSON_run_defined:
  assumes "JSON_run s ts = Some (ExpEnd w, st')" and "TValue JUndefined \<notin> set ts"
    and "\<And>v st. s \<noteq> (ExpEnd v, st)"
  shows "w \<noteq> JUndefined"
  using assms
proof (induction ts arbitrary: s)
  case Nil
  then show ?case by simp
next
  case (Cons t ts)
  from Cons.prems(1) obtain s' where
    step: "JSON_step s t = Some s'" and run: "JSON_run s' ts = Some (ExpEnd w, st')"
    by (auto split: option.splits)
  show ?case
  proof (cases "\<exists>v st. s' = (ExpEnd v, st)")
    case True
    then obtain v st where s': "s' = (ExpEnd v, st)" by blast
    with run have "v = w"
      by (simp add: JSON_run_end split: if_splits)
    with step s' Cons.prems(2) show ?thesis
      using JSON_step_defined [of s t w st] by auto
  next
    case False
    with Cons.IH [OF run] Cons.prems(2) show ?thesis by simp
  qed
qed

lemma JSON_parse_defined: "JSON_parse msg \<noteq> Inr JUndefined"
proof
  assume p: "JSON_parse msg = Inr JUndefined"
  then obtain ts where lex: "JSON_lex msg = Some ts"
    by (auto simp: JSON_parse_def split: option.splits)
  with p have "JSON_run (ExpValue, []) ts = Some (ExpEnd JUndefined, [])"
    by (auto simp: JSON_parse_def split: option.splits prod.splits expect.splits list.splits)
  from JSON_run_defined [OF this JSON_lex_defined [OF lex]] show False
    by simp
qed


lemma JSON_parse_error: "JSON_parse msg = Inl e \<Longrightarrow> e = SyntaxError"
  by (auto simp: JSON_parse_def split: option.splits prod.splits expect.splits list.splits)

text \<open>The \<open>try\<close> block of the segments branch, by the outcome of the parse.\<close>

lemma segments_try_invalid:
  "JSON_parse msg = Inl e \<Longrightarrow> segments_try p msg = (Some e, p, [])"
  by (simp add: segments_try_def)

lemma segments_try_valid:
  "JSON_parse msg = Inr v \<Longrightarrow>
   segments_try p msg =
     (if rvc_option mapServiceAreasFromSegments (cfg p) \<noteq> Some False then
        (case Object_entries v of
           Inl e \<Rightarrow> (Some e, p\<lparr>segments := v\<rparr>, [])
         | Inr es \<Rightarrow>
             (None, p\<lparr>segments := v\<rparr>,
              [UpdateServiceAreas (map (\<lambda>(i, n). ServiceArea i n) es)]))
      else (None, p\<lparr>segments := v\<rparr>, []))"
  by (simp add: segments_try_def Let_def split: sum.splits)

section \<open>Publishing presets\<close>

lemma publish_if_when_present:
  "publish_if p suffix preset =
     when_present preset (\<lambda>s. Publish (base p @ str ''/'' @ suffix) (Text s))"
  by (simp add: publish_if_def when_present_def publish_def split: option.splits)

lemma published_on_append:
  "published_on t (xs @ ys) = published_on t xs @ published_on t ys"
  by (induction t xs rule: published_on.induct) simp_all

lemma published_on_when_present_other:
  "t' \<noteq> t \<Longrightarrow> published_on t (when_present preset (\<lambda>s. Publish t' (Text s))) = []"
  by (simp add: when_present_def split: option.splits)

lemma topic_neq:
  "a \<noteq> b \<Longrightarrow> base p @ str ''/'' @ a \<noteq> base p @ str ''/'' @ b"
  by simp

section \<open>Evaluation of concrete inputs\<close>

text \<open>The defining equations that the simplifier unfolds to run the model on an input.\<close>

lemmas number_defs =
  Number_def StringToNumber_def trimString_def is_StrWhiteSpaceChar_def
  NonDecimalIntegerLiteral_def StrDecimalLiteral_def StrUnsignedDecimalLiteral_def
  ExponentPart_opt_def SignedInteger_def DecimalDigits_def decimal_Number_def
  Number_value_def floor_log2_def pow2_le_ratio_def round_half_even_def pow2_def
  digits_value_def digit_value_def is_DecimalDigit_def is_HexDigit_def is_OctalDigit_def
  is_BinaryDigit_def negate_def isNaN_def

lemmas json_defs =
  JSON_parse_def JSON_token_def is_JSONWhiteSpace_def JSONEscape_def is_number_char_def JSONNumber_def
  is_DecimalDigit_def is_HexDigit_def ExponentPart_opt_def SignedInteger_def
  DecimalDigits_def decimal_Number_def Number_value_def floor_log2_def pow2_le_ratio_def
  round_half_even_def pow2_def negate_def digits_value_def digit_value_def
  CreateDataProperty_def

lemmas entries_defs =
  Object_entries_def own_entries_def is_array_index_def digits_value_def digit_value_def
  is_DecimalDigit_def

section \<open>Number values\<close>

text \<open>
  The rounding is the one of binary64. The binary search finds the binade of the ratio,
  and the nearest integer is at most one half away from the scaled ratio.
\<close>

lemma pow2_le_ratio_iff:
  assumes "0 < b"
  shows "pow2_le_ratio e a b \<longleftrightarrow> pow2 e * of_int b \<le> (of_int a :: rat)"
proof (cases "0 \<le> e")
  case True
  have "b * 2 ^ nat e \<le> a \<longleftrightarrow> (of_int (b * 2 ^ nat e) :: rat) \<le> of_int a"
    by (simp only: of_int_le_iff)
  with True show ?thesis
    by (simp add: pow2_le_ratio_def pow2_def mult.commute)
next
  case False
  have "b \<le> a * 2 ^ nat (- e) \<longleftrightarrow> (of_int b :: rat) \<le> of_int (a * 2 ^ nat (- e))"
    by (simp only: of_int_le_iff)
  with False show ?thesis
    by (simp add: pow2_le_ratio_def pow2_def field_simps)
qed

lemma largest_exponent_halving:
  assumes "pow2_le_ratio e a b" and "\<not> pow2_le_ratio (e + 2 ^ n) a b"
  shows "pow2_le_ratio (largest_exponent (map (\<lambda>i. 2 ^ i) (rev [0..<n])) e a b) a b
         \<and> \<not> pow2_le_ratio (largest_exponent (map (\<lambda>i. 2 ^ i) (rev [0..<n])) e a b + 1) a b"
  using assms
proof (induction n arbitrary: e)
  case 0
  then show ?case by simp
next
  case (Suc n)
  show ?case
  proof (cases "pow2_le_ratio (e + 2 ^ n) a b")
    case True
    from Suc.prems(2) have "\<not> pow2_le_ratio (e + 2 ^ n + 2 ^ n) a b"
      by (simp add: add.assoc)
    from Suc.IH [OF True this] True show ?thesis by simp
  next
    case False
    from Suc.IH [OF Suc.prems(1) False] False show ?thesis by simp
  qed
qed

lemma floor_log2_steps:
  "[2048, 1024, 512, 256, 128, 64, 32, 16, 8, 4, 2, 1] = map (\<lambda>i. (2::int) ^ i) (rev [0..<12])"
  by (simp add: upt_rec)

lemma floor_log2_correct:
  assumes "0 < b" and "\<not> b * 2 ^ 1024 \<le> a" and "\<not> a * 2 ^ 1075 \<le> b"
  shows "pow2_le_ratio (floor_log2 a b) a b \<and> \<not> pow2_le_ratio (floor_log2 a b + 1) a b"
proof -
  from assms(3) have lo: "pow2_le_ratio (- 1075) a b"
    by (simp add: pow2_le_ratio_def)
  have "b * 2 ^ 1024 \<le> b * 2 ^ 3021"
    using assms(1) by simp
  with assms(2) have "\<not> b * 2 ^ 3021 \<le> a"
    by linarith
  then have hi: "\<not> pow2_le_ratio (- 1075 + 2 ^ 12) a b"
    by (simp add: pow2_le_ratio_def)
  from largest_exponent_halving [OF lo hi] show ?thesis
    unfolding floor_log2_def floor_log2_steps .
qed

lemma round_half_even_error:
  assumes "0 < d"
  shows "\<bar>(of_int (round_half_even n d) :: rat) - of_int n / of_int d\<bar> \<le> 1 / 2"
proof -
  define q where "q = n div d"
  define r where "r = n mod d"
  have n: "n = q * d + r" and r: "0 \<le> r" "r < d"
    using assms by (simp_all add: q_def r_def)
  have frac: "(of_int n :: rat) / of_int d = of_int q + of_int r / of_int d"
    using assms by (simp add: n field_simps)
  have rd: "(0::rat) \<le> of_int r / of_int d" "(of_int r :: rat) / of_int d < 1"
    using r assms by simp_all
  consider "2 * r < d" | "d < 2 * r" | "2 * r = d" by linarith
  then show ?thesis
  proof cases
    case 1
    then have "(of_int (2 * r) :: rat) < of_int d" by (simp only: of_int_less_iff)
    then have "(of_int r :: rat) / of_int d < 1 / 2"
      using assms by (simp add: field_simps)
    with 1 rd show ?thesis
      by (simp add: round_half_even_def q_def [symmetric] r_def [symmetric] frac)
  next
    case 2
    then have "(of_int d :: rat) < of_int (2 * r)" by (simp only: of_int_less_iff)
    then have "1 / 2 < (of_int r :: rat) / of_int d"
      using assms by (simp add: field_simps)
    with 2 rd show ?thesis
      by (simp add: round_half_even_def q_def [symmetric] r_def [symmetric] frac)
  next
    case 3
    then have "(of_int (2 * r) :: rat) = of_int d" by (simp only: of_int_eq_iff)
    then have e: "(of_int r :: rat) / of_int d = 1 / 2"
      using assms by (simp add: field_simps)
    from 3 have "round_half_even n d = q \<or> round_half_even n d = q + 1"
      by (simp add: round_half_even_def q_def [symmetric] r_def [symmetric])
    then show ?thesis
    proof
      assume "round_half_even n d = q"
      then show ?thesis unfolding frac e by simp
    next
      assume "round_half_even n d = q + 1"
      then show ?thesis unfolding frac e by simp
    qed
  qed
qed


lemma pow2_powi: "pow2 k = 2 powi k"
proof (cases "0 \<le> k")
  case True
  then show ?thesis by (simp add: pow2_def power_int_def)
next
  case False
  have "inverse (2::rat) ^ nat (- k) = 1 / 2 ^ nat (- k)"
    by (simp add: power_one_over inverse_eq_divide)
  with False show ?thesis by (simp only: pow2_def power_int_def if_False)
qed

lemma pow2_pos: "0 < pow2 k"
  by (simp add: pow2_powi)

lemma pow2_mono: "i \<le> j \<Longrightarrow> pow2 i \<le> pow2 j"
  by (simp add: pow2_powi power_int_increasing)

lemma pow2_add: "pow2 (i + j) = pow2 i * pow2 j"
  by (simp add: pow2_powi power_int_add)

lemma pow2_less_imp: "pow2 i < pow2 j \<Longrightarrow> i < j"
  using pow2_mono [of j i] by (cases "i < j") auto

lemma round_half_even_nonneg: "0 \<le> n \<Longrightarrow> 0 < d \<Longrightarrow> 0 \<le> round_half_even n d"
  by (simp add: round_half_even_def Let_def pos_imp_zdiv_nonneg_iff)


lemma Number_value_rounding:
  fixes a b :: int
  assumes a: "0 < a" and b: "0 < b"
    and nov: "\<not> b * 2 ^ 1024 \<le> a" and nou: "\<not> a * 2 ^ 1075 \<le> b"
  defines "x \<equiv> (of_int a :: rat) / of_int b"
    and "e \<equiv> floor_log2 a b"
  defines "q \<equiv> max e (- 1022) - 52"
  defines "n \<equiv> (if 0 \<le> q then round_half_even a (b * 2 ^ nat q)
                  else round_half_even (a * 2 ^ nat (- q)) b)"
  shows "pow2 e \<le> x" and "x < pow2 (e + 1)"
    and "\<bar>of_int n * pow2 q - x\<bar> \<le> pow2 q / 2"
    and "0 \<le> n" and "n \<le> 2 ^ 53" and "- 1074 \<le> q" and "q \<le> 971"
proof -
  have b': "(0::rat) < of_int b" using b by simp
  from floor_log2_correct [OF b nov nou]
  have "pow2 e * of_int b \<le> (of_int a :: rat)" and "\<not> pow2 (e + 1) * of_int b \<le> (of_int a :: rat)"
    by (simp_all add: pow2_le_ratio_iff [OF b] e_def)
  with b' show lo: "pow2 e \<le> x" and hi: "x < pow2 (e + 1)"
    by (simp_all add: x_def pos_le_divide_eq pos_divide_less_eq not_le)
  have p: "0 < pow2 q" by (rule pow2_pos)
  have scaled: "\<bar>of_int n - x / pow2 q\<bar> \<le> 1 / 2"
  proof (cases "0 \<le> q")
    case True
    have d: "0 < b * 2 ^ nat q" using b by simp
    have "(of_int a :: rat) / of_int (b * 2 ^ nat q) = x / pow2 q"
      using True by (simp add: x_def pow2_def)
    with round_half_even_error [OF d, of a] True show ?thesis
      by (simp add: n_def)
  next
    case False
    have "(of_int (a * 2 ^ nat (- q)) :: rat) / of_int b = x / pow2 q"
      using False by (simp add: x_def pow2_def)
    with round_half_even_error [OF b, of "a * 2 ^ nat (- q)"] False show ?thesis
      by (simp add: n_def)
  qed
  have "of_int n * pow2 q - x = pow2 q * (of_int n - x / pow2 q)"
    using p by (simp add: field_simps)
  then have "\<bar>of_int n * pow2 q - x\<bar> = pow2 q * \<bar>of_int n - x / pow2 q\<bar>"
    using p by (simp add: abs_mult)
  also have "\<dots> \<le> pow2 q * (1 / 2)"
    using scaled p by (simp only: mult_le_cancel_left_pos)
  finally show "\<bar>of_int n * pow2 q - x\<bar> \<le> pow2 q / 2" by simp
  show "0 \<le> n"
    using a b by (simp add: n_def round_half_even_nonneg)
  show "- 1074 \<le> q" by (simp add: q_def)
  from nov have "a < b * 2 ^ 1024" by simp
  then have "(of_int a :: rat) < of_int (b * 2 ^ 1024)" by (simp only: of_int_less_iff)
  with b' have "x < 2 ^ 1024" by (simp add: x_def pos_divide_less_eq mult.commute)
  then have "x < pow2 1024" by (simp add: pow2_def)
  with lo have "pow2 e < pow2 1024" by simp
  then have e: "e < 1024" by (rule pow2_less_imp)
  then show "q \<le> 971" by (simp add: q_def)
  have "pow2 (e + 1) \<le> pow2 (q + 53)"
    by (rule pow2_mono) (simp add: q_def)
  with hi have "x < pow2 q * pow2 53" by (simp add: pow2_add)
  with p have "x / pow2 q < pow2 53" by (simp add: pos_divide_less_eq mult.commute)
  then have "x / pow2 q < 2 ^ 53" by (simp add: pow2_def)
  with scaled have "(of_int n :: rat) < 2 ^ 53 + 1" by linarith
  then have "(of_int n :: rat) < of_int (2 ^ 53 + 1)" by simp
  then have "n < 2 ^ 53 + 1" by (simp only: of_int_less_iff)
  then show "n \<le> 2 ^ 53" by simp
qed


lemma if_PosInf_Num:
  "(if c then PosInf else Num w) = Num v \<Longrightarrow> v = w"
  "(if c then PosInf else Num w) = PosInf \<Longrightarrow> c"
  by (cases c; simp)+

lemma Number_value_finite:
  fixes a b :: int
  assumes a: "0 < a" and b: "0 < b" and v: "Number_value a b = Num v"
  shows "\<exists>q n. - 1074 \<le> q \<and> q \<le> 971 \<and> 0 \<le> n \<and> n \<le> 2 ^ 53
           \<and> v = of_int n * pow2 q
           \<and> \<bar>v - of_int a / of_int b\<bar> \<le> pow2 q / 2
           \<and> of_int a / of_int b < pow2 (q + 53)
           \<and> (q = - 1074 \<or> pow2 (q + 52) \<le> of_int a / of_int b)"
proof -
  have b': "(0::rat) < of_int b" using b by simp
  from a v have nov: "\<not> b * 2 ^ 1024 \<le> a"
    by (auto simp: Number_value_def)
  show ?thesis
  proof (cases "a * 2 ^ 1075 \<le> b")
    case True
    with a nov v have v0: "v = 0"
      by (simp add: Number_value_def)
    from True have "(of_int (a * 2 ^ 1075) :: rat) \<le> of_int b"
      by (simp only: of_int_le_iff)
    with b' have small: "(of_int a :: rat) / of_int b \<le> 1 / 2 ^ 1075"
      by (simp add: field_simps)
    have h: "pow2 (- 1074) / 2 = 1 / 2 ^ 1075"
      by (simp add: pow2_def)
    have c: "(1::rat) / 2 ^ 1075 < pow2 (- 1021)"
      by (simp add: pow2_def)
    have lt: "(of_int a :: rat) / of_int b < pow2 (- 1021)"
      by (rule le_less_trans [OF small c])
    have nonneg: "(0::rat) \<le> of_int a / of_int b"
      using a b by simp
    have err: "\<bar>v - of_int a / of_int b\<bar> \<le> pow2 (- 1074) / 2"
      unfolding h v0 using small nonneg by linarith
    have "- 1074 \<le> (- 1074 :: int) \<and> (- 1074 :: int) \<le> 971 \<and> (0::int) \<le> 0 \<and> (0::int) \<le> 2 ^ 53
           \<and> v = of_int 0 * pow2 (- 1074)
           \<and> \<bar>v - of_int a / of_int b\<bar> \<le> pow2 (- 1074) / 2
           \<and> of_int a / of_int b < pow2 (- 1074 + 53)
           \<and> (- 1074 = (- 1074 :: int) \<or> pow2 (- 1074 + 52) \<le> of_int a / of_int b)"
      using v0 err lt by simp
    then show ?thesis
      by (intro exI)
  next
    case False
    define e where "e = floor_log2 a b"
    define q where "q = max e (- 1022) - 52"
    define n where "n = (if 0 \<le> q then round_half_even a (b * 2 ^ nat q)
                         else round_half_even (a * 2 ^ nat (- q)) b)"
    note r = Number_value_rounding [OF a b nov False, folded e_def, folded q_def, folded n_def]
    from a have a0: "(a = 0) = False" by simp
    from nov have n1: "(b * 2 ^ 1024 \<le> a) = False" by simp
    from False have n2: "(a * 2 ^ 1075 \<le> b) = False" by simp
    have "Number_value a b =
            (if 2 ^ 1024 \<le> of_int n * pow2 q then PosInf else Num (of_int n * pow2 q))"
      unfolding Number_value_def Let_def n_def q_def e_def a0 n1 n2 if_False
      by (rule refl)
    with v have "(if 2 ^ 1024 \<le> of_int n * pow2 q then PosInf else Num (of_int n * pow2 q)) = Num v"
      by (simp only:)
    then have vv: "v = of_int n * pow2 q"
      by (rule if_PosInf_Num(1))
    have bin: "q = - 1074 \<or> pow2 (q + 52) \<le> of_int a / of_int b"
    proof (cases "e < - 1022")
      case True
      then show ?thesis by (simp add: q_def)
    next
      case False
      then have "q + 52 = e" by (simp add: q_def)
      with r(1) show ?thesis by simp
    qed
    have "pow2 (e + 1) \<le> pow2 (q + 53)"
      by (rule pow2_mono) (simp add: q_def)
    with r(2) have up: "of_int a / of_int b < pow2 (q + 53)" by simp
    have err: "\<bar>v - of_int a / of_int b\<bar> \<le> pow2 q / 2"
      unfolding vv by (rule r(3))
    have "- 1074 \<le> q \<and> q \<le> 971 \<and> 0 \<le> n \<and> n \<le> 2 ^ 53
           \<and> v = of_int n * pow2 q
           \<and> \<bar>v - of_int a / of_int b\<bar> \<le> pow2 q / 2
           \<and> of_int a / of_int b < pow2 (q + 53)
           \<and> (q = - 1074 \<or> pow2 (q + 52) \<le> of_int a / of_int b)"
      by (intro conjI) (rule r(6) r(7) r(4) r(5) vv err up bin)+
    then show ?thesis
      by (intro exI)
  qed
qed

lemma Number_value_infinite:
  fixes a b :: int
  assumes a: "0 < a" and b: "0 < b" and v: "Number_value a b = PosInf"
  shows "(2 ^ 1024 - 2 ^ 970 :: rat) \<le> of_int a / of_int b"
proof (cases "b * 2 ^ 1024 \<le> a")
  case True
  have b': "(0::rat) < of_int b" using b by simp
  from True have "(of_int (b * 2 ^ 1024) :: rat) \<le> of_int a"
    by (simp only: of_int_le_iff)
  with b' have "(2 ^ 1024 :: rat) \<le> of_int a / of_int b"
    by (simp add: pos_le_divide_eq mult.commute)
  then show ?thesis by simp
next
  case nov: False
  from a nov v have nou: "\<not> a * 2 ^ 1075 \<le> b"
    by (auto simp: Number_value_def split: if_splits)
  define e where "e = floor_log2 a b"
  define q where "q = max e (- 1022) - 52"
  define n where "n = (if 0 \<le> q then round_half_even a (b * 2 ^ nat q)
                       else round_half_even (a * 2 ^ nat (- q)) b)"
  note r = Number_value_rounding [OF a b nov nou, folded e_def, folded q_def, folded n_def]
  from a have a0: "(a = 0) = False" by simp
  from nov have n1: "(b * 2 ^ 1024 \<le> a) = False" by simp
  from nou have n2: "(a * 2 ^ 1075 \<le> b) = False" by simp
  have "Number_value a b =
          (if 2 ^ 1024 \<le> of_int n * pow2 q then PosInf else Num (of_int n * pow2 q))"
    unfolding Number_value_def Let_def n_def q_def e_def a0 n1 n2 if_False
    by (rule refl)
  with v have "(if 2 ^ 1024 \<le> of_int n * pow2 q then PosInf else Num (of_int n * pow2 q)) = PosInf"
    by (simp only:)
  then have big: "2 ^ 1024 \<le> of_int n * pow2 q"
    by (rule if_PosInf_Num(2))
  from r(7) have "pow2 q \<le> pow2 971" by (rule pow2_mono)
  then have "pow2 q / 2 \<le> 2 ^ 970"
    by (simp add: pow2_def)
  with r(3) big show ?thesis by linarith
qed

lemma round_half_even_tie:
  "2 * (n mod d) = d \<Longrightarrow> even (round_half_even n d)"
  by (simp add: round_half_even_def Let_def)

text \<open>
  \<open>Number_value_finite\<close>: a finite result is a double \<open>n * 2^q\<close> with a significand of at
  most 53 bits, it lies on the grid of the binade of the ratio (or on the subnormal
  grid), and it is at most half a grid step away from the ratio.
  \<open>Number_value_infinite\<close>: only a ratio of at least \<open>2^1024 - 2^970\<close>, half a step above
  the largest double, gives the infinity. A conversion never invents a NaN: only a text
  that is no numeric literal gives one. The examples show the nearest double of a decimal
  fraction, the two zeros, the underflow to zero, and the overflow to infinity just above
  the largest double.
\<close>

lemma Number_value_not_NaN: "Number_value a b \<noteq> NaN"
  by (simp add: Number_value_def Let_def)

lemma Number_examples:
  "Number (str ''0.1'') = Num (3602879701896397 / 36028797018963968)"
  "Number (str ''-0'') = NegZero"
  "Number (str ''1e-400'') = Num 0"
  "Number (str ''4.35'') = Num (4897664594765414 / 1125899906842624)"
  "Number (str ''0x1F'') = Num 31"
  "Number (str ''-Infinity'') = NegInf"
  "Number (str ''12px'') = NaN"
  by (simp_all add: number_defs str_def)

lemma Number_largest_double:
  "Number (str ''1.7976931348623157e308'') = Num ((2 ^ 53 - 1) * 2 ^ 971)"
  "Number (str ''1.7976931348623159e308'') = PosInf"
  by (simp_all add: number_defs str_def)

section \<open>Properties of the handlers\<close>

subsection \<open>Dock status\<close>

text \<open>
  Claim C8. A message on a topic that ends with \<open>DockStatusStateAttribute/status\<close> sets
  the operational state to Running for the payload \<open>cleaning\<close>, to Docked for \<open>idle\<close>, to
  Paused for \<open>pause\<close> and to Error for \<open>error\<close>. Any other payload makes no call and
  leaves the platform as it was.
\<close>

theorem dock_status_sets_operational_state:
  assumes "endsWith topic (str ''DockStatusStateAttribute/status'')"
  shows "onMqttMessage p topic msg =
           (p, if msg = str ''cleaning'' then [UpdateOperationalState Running]
               else if msg = str ''idle'' then [UpdateOperationalState Docked]
               else if msg = str ''pause'' then [UpdateOperationalState Paused]
               else if msg = str ''error'' then [UpdateOperationalState Error]
               else [])"
  by (simp add: onMqttMessage_dock [OF assms])

theorem dock_status_sets_operational_state_witness:
  "endsWith (str ''valetudo/robot/DockStatusStateAttribute/status'')
     (str ''DockStatusStateAttribute/status'')
   \<and> onMqttMessage example_platform (str ''valetudo/robot/DockStatusStateAttribute/status'')
         (str ''cleaning'') = (example_platform, [UpdateOperationalState Running])
   \<and> onMqttMessage example_platform (str ''valetudo/robot/DockStatusStateAttribute/status'')
         (str ''idle'') = (example_platform, [UpdateOperationalState Docked])
   \<and> onMqttMessage example_platform (str ''valetudo/robot/DockStatusStateAttribute/status'')
         (str ''pause'') = (example_platform, [UpdateOperationalState Paused])
   \<and> onMqttMessage example_platform (str ''valetudo/robot/DockStatusStateAttribute/status'')
         (str ''error'') = (example_platform, [UpdateOperationalState Error])
   \<and> onMqttMessage example_platform (str ''valetudo/robot/DockStatusStateAttribute/status'')
         (str ''docked'') = (example_platform, [])"
proof -
  have h: "endsWith (str ''valetudo/robot/DockStatusStateAttribute/status'')
             (str ''DockStatusStateAttribute/status'')"
    by (simp add: endsWith_def str_def)
  note t = dock_status_sets_operational_state [OF h, of example_platform]
  show ?thesis
    using h t [of "str ''cleaning''"] t [of "str ''idle''"] t [of "str ''pause''"]
      t [of "str ''error''"] t [of "str ''docked''"]
    by (simp add: str_def)
qed

subsection \<open>Error status\<close>

text \<open>
  Claim C7. A message on a topic that ends with \<open>StatusStateAttribute/error\<close> makes no
  call when the payload is empty, \<open>{}\<close> or \<open>null\<close>; any other payload sets the
  operational state to Error.
\<close>

theorem status_error_sets_error_state:
  assumes "endsWith topic (str ''StatusStateAttribute/error'')"
  shows "onMqttMessage p topic msg =
           (p, if msg = [] \<or> msg = str ''{}'' \<or> msg = str ''null'' then []
               else [UpdateOperationalState Error])"
  by (simp add: onMqttMessage_error [OF assms])

theorem status_error_sets_error_state_witness:
  "endsWith (str ''valetudo/robot/StatusStateAttribute/error'') (str ''StatusStateAttribute/error'')
   \<and> onMqttMessage example_platform (str ''valetudo/robot/StatusStateAttribute/error'') (str '''')
       = (example_platform, [])
   \<and> onMqttMessage example_platform (str ''valetudo/robot/StatusStateAttribute/error'') (str ''{}'')
       = (example_platform, [])
   \<and> onMqttMessage example_platform (str ''valetudo/robot/StatusStateAttribute/error'') (str ''null'')
       = (example_platform, [])
   \<and> onMqttMessage example_platform (str ''valetudo/robot/StatusStateAttribute/error'')
         (str ''{\"message\":\"Wheel stuck\"}'')
       = (example_platform, [UpdateOperationalState Error])"
proof -
  have h: "endsWith (str ''valetudo/robot/StatusStateAttribute/error'')
             (str ''StatusStateAttribute/error'')"
    by (simp add: endsWith_def str_def)
  note t = status_error_sets_error_state [OF h, of example_platform]
  show ?thesis
    using h t [of "str ''''"] t [of "str ''{}''"] t [of "str ''null''"]
      t [of "str ''{\"message\":\"Wheel stuck\"}''"]
    by (simp add: str_def)
qed

subsection \<open>Battery level\<close>

text \<open>
  Claim C5. A message on a topic that ends with \<open>BatteryStateAttribute/level\<close> updates
  the battery of the device to \<open>Number(payload)\<close> exactly when that number is not NaN;
  otherwise it makes no call. The platform itself never changes.
\<close>

theorem battery_level_updates_iff_number:
  assumes "endsWith topic (str ''BatteryStateAttribute/level'')"
  shows "onMqttMessage p topic msg =
           (p, if isNaN (Number msg) then [] else [UpdateBattery (Number msg)])"
  by (simp add: onMqttMessage_level [OF assms])

theorem battery_level_updates_iff_number_witness:
  "endsWith (str ''valetudo/robot/BatteryStateAttribute/level'') (str ''BatteryStateAttribute/level'')
   \<and> Number (str ''87'') = Num 87
   \<and> onMqttMessage example_platform (str ''valetudo/robot/BatteryStateAttribute/level'') (str ''87'')
       = (example_platform, [UpdateBattery (Num 87)])
   \<and> Number (str ''full'') = NaN
   \<and> onMqttMessage example_platform (str ''valetudo/robot/BatteryStateAttribute/level'') (str ''full'')
       = (example_platform, [])
   \<and> Number (str ''1e400'') = PosInf
   \<and> onMqttMessage example_platform (str ''valetudo/robot/BatteryStateAttribute/level'') (str ''1e400'')
       = (example_platform, [UpdateBattery PosInf])
   \<and> Number (str ''9007199254740993'') = Num 9007199254740992
   \<and> onMqttMessage example_platform (str ''valetudo/robot/BatteryStateAttribute/level'')
         (str ''9007199254740993'')
       = (example_platform, [UpdateBattery (Num 9007199254740992)])"
proof -
  have h: "endsWith (str ''valetudo/robot/BatteryStateAttribute/level'')
             (str ''BatteryStateAttribute/level'')"
    by (simp add: endsWith_def str_def)
  have n1: "Number (str ''87'') = Num 87"
    by (simp add: number_defs str_def)
  have n2: "Number (str ''full'') = NaN"
    by (simp add: number_defs str_def)
  have n3: "Number (str ''1e400'') = PosInf"
    by (simp add: number_defs str_def)
  have n4: "Number (str ''9007199254740993'') = Num 9007199254740992"
    by (simp add: number_defs str_def)
  note t = battery_level_updates_iff_number [OF h, of example_platform]
  show ?thesis
    using h n1 n2 n3 n4 t [of "str ''87''"] t [of "str ''full''"] t [of "str ''1e400''"]
      t [of "str ''9007199254740993''"]
    by (simp add: isNaN_def)
qed

text \<open>A string of white space only is trimmed to the empty string.\<close>

lemma trimString_blank:
  assumes "list_all is_StrWhiteSpaceChar s"
  shows "trimString s = []"
proof -
  from assms have d: "dropWhile is_StrWhiteSpaceChar s = []"
    by (induction s) simp_all
  show ?thesis
    unfolding trimString_def d by simp
qed

text \<open>
  Claim C9. A battery-level payload that is empty or holds only white space converts to
  the number 0, not to NaN, so the battery of the device is updated to 0.
\<close>

theorem battery_blank_payload_reads_zero:
  assumes "endsWith topic (str ''BatteryStateAttribute/level'')"
    and "list_all is_StrWhiteSpaceChar msg"
  shows "Number msg = Num 0 \<and> onMqttMessage p topic msg = (p, [UpdateBattery (Num 0)])"
proof -
  have "Number msg = Num 0"
    by (simp add: Number_def StringToNumber_def trimString_blank [OF assms(2)])
  then show ?thesis
    by (simp add: onMqttMessage_level [OF assms(1)] isNaN_def)
qed

theorem battery_blank_payload_reads_zero_witness:
  "endsWith (str ''valetudo/robot/BatteryStateAttribute/level'') (str ''BatteryStateAttribute/level'')
   \<and> list_all is_StrWhiteSpaceChar []
   \<and> onMqttMessage example_platform (str ''valetudo/robot/BatteryStateAttribute/level'') []
       = (example_platform, [UpdateBattery (Num 0)])
   \<and> list_all is_StrWhiteSpaceChar [0x20, 0x9, 0xA]
   \<and> onMqttMessage example_platform (str ''valetudo/robot/BatteryStateAttribute/level'')
         [0x20, 0x9, 0xA]
       = (example_platform, [UpdateBattery (Num 0)])"
proof -
  have h: "endsWith (str ''valetudo/robot/BatteryStateAttribute/level'')
             (str ''BatteryStateAttribute/level'')"
    by (simp add: endsWith_def str_def)
  have w1: "list_all is_StrWhiteSpaceChar []"
    by simp
  have w2: "list_all is_StrWhiteSpaceChar [0x20, 0x9, 0xA]"
    by (simp add: is_StrWhiteSpaceChar_def)
  show ?thesis
    using h w1 w2 battery_blank_payload_reads_zero [OF h w1, of example_platform]
      battery_blank_payload_reads_zero [OF h w2, of example_platform]
    by simp
qed

subsection \<open>Map segments\<close>

text \<open>
  Claim C1. A message on a topic that ends with \<open>MapData/segments\<close> whose payload is not
  valid JSON leaves the stored segment table, and the rest of the platform, unchanged.
  The handler returns normally, and its only call is one warning on the logger.
\<close>

theorem segments_invalid_json_keeps_table:
  assumes "endsWith topic (str ''MapData/segments'')" and "isl (JSON_parse msg)"
  shows "onMqttMessage p topic msg = (p, [LogWarn (str ''Invalid segments JSON: '') SyntaxError])
         \<and> segments (fst (onMqttMessage p topic msg)) = segments p"
proof -
  from assms(2) obtain e where e: "JSON_parse msg = Inl e"
    by (cases "JSON_parse msg") auto
  then have "e = SyntaxError"
    by (rule JSON_parse_error)
  with e show ?thesis
    by (simp add: onMqttMessage_segments [OF assms(1)] segments_try_invalid)
qed

theorem segments_invalid_json_keeps_table_witness:
  "endsWith (str ''valetudo/robot/MapData/segments'') (str ''MapData/segments'')
   \<and> isl (JSON_parse (str ''{\"1\":\"Kitchen\",''))
   \<and> onMqttMessage example_platform (str ''valetudo/robot/MapData/segments'')
         (str ''{\"1\":\"Kitchen\",'')
       = (example_platform, [LogWarn (str ''Invalid segments JSON: '') SyntaxError])
   \<and> segments (fst (onMqttMessage example_platform (str ''valetudo/robot/MapData/segments'')
         (str ''{\"1\":\"Kitchen\",''))) = JObj [(str ''7'', JStr (str ''Bath''))]"
proof -
  have h: "endsWith (str ''valetudo/robot/MapData/segments'') (str ''MapData/segments'')"
    by (simp add: endsWith_def str_def)
  have j: "isl (JSON_parse (str ''{\"1\":\"Kitchen\",''))"
    by (simp add: json_defs str_def)
  show ?thesis
    using h j segments_invalid_json_keeps_table [OF h j, of example_platform]
    by (simp add: example_platform_def)
qed

text \<open>
  Claim C4. When the payload of a \<open>MapData/segments\<close> message parses to a JSON object,
  the segment table is replaced by that object as a whole. Unless the option
  \<open>mapServiceAreasFromSegments\<close> is \<open>false\<close>, the service areas of the device are set
  to the pairs of id and name of the entries of the object, in the order in which
  \<open>Object.entries\<close> enumerates them; when the option is \<open>false\<close> the handler makes no call.
\<close>

theorem segments_object_replaces_table:
  assumes "endsWith topic (str ''MapData/segments'')" and "JSON_parse msg = Inr (JObj ps)"
  shows "onMqttMessage p topic msg =
           (p\<lparr>segments := JObj ps\<rparr>,
            if rvc_option mapServiceAreasFromSegments (cfg p) = Some False then []
            else [UpdateServiceAreas (map (\<lambda>(i, n). ServiceArea i n) (own_entries ps))])"
  by (simp add: onMqttMessage_segments [OF assms(1)] segments_try_valid [OF assms(2)]
        Object_entries_def)

theorem segments_object_replaces_table_witness:
  "endsWith (str ''valetudo/robot/MapData/segments'') (str ''MapData/segments'')
   \<and> JSON_parse (str ''{\"1\":\"Kitchen\",\"2\":\"Hall\"}'')
       = Inr (JObj [(str ''1'', JStr (str ''Kitchen'')), (str ''2'', JStr (str ''Hall''))])
   \<and> onMqttMessage example_platform (str ''valetudo/robot/MapData/segments'')
         (str ''{\"1\":\"Kitchen\",\"2\":\"Hall\"}'')
       = (example_platform
            \<lparr>segments := JObj [(str ''1'', JStr (str ''Kitchen'')), (str ''2'', JStr (str ''Hall''))]\<rparr>,
          [UpdateServiceAreas [ServiceArea (str ''1'') (JStr (str ''Kitchen'')),
                               ServiceArea (str ''2'') (JStr (str ''Hall''))]])
   \<and> onMqttMessage example_platform_no_areas (str ''valetudo/robot/MapData/segments'')
         (str ''{\"1\":\"Kitchen\",\"2\":\"Hall\"}'')
       = (example_platform_no_areas
            \<lparr>segments := JObj [(str ''1'', JStr (str ''Kitchen'')), (str ''2'', JStr (str ''Hall''))]\<rparr>,
          [])
   \<and> JSON_parse (str ''{\"1\":1e400}'') = Inr (JObj [(str ''1'', JNum PosInf)])
   \<and> onMqttMessage example_platform (str ''valetudo/robot/MapData/segments'')
         (str ''{\"1\":1e400}'')
       = (example_platform\<lparr>segments := JObj [(str ''1'', JNum PosInf)]\<rparr>,
          [UpdateServiceAreas [ServiceArea (str ''1'') (JNum PosInf)]])"
proof -
  have h: "endsWith (str ''valetudo/robot/MapData/segments'') (str ''MapData/segments'')"
    by (simp add: endsWith_def str_def)
  have j: "JSON_parse (str ''{\"1\":\"Kitchen\",\"2\":\"Hall\"}'')
           = Inr (JObj [(str ''1'', JStr (str ''Kitchen'')), (str ''2'', JStr (str ''Hall''))])"
    by (simp add: json_defs str_def)
  have e: "own_entries [(str ''1'', JStr (str ''Kitchen'')), (str ''2'', JStr (str ''Hall''))]
           = [(str ''1'', JStr (str ''Kitchen'')), (str ''2'', JStr (str ''Hall''))]"
    by (simp add: entries_defs str_def)
  have c1: "rvc_option mapServiceAreasFromSegments (cfg example_platform) = None"
    by (simp add: rvc_option_def example_platform_def example_config_def)
  have c2: "rvc_option mapServiceAreasFromSegments (cfg example_platform_no_areas) = Some False"
    by (simp add: rvc_option_def example_platform_no_areas_def)
  have j': "JSON_parse (str ''{\"1\":1e400}'') = Inr (JObj [(str ''1'', JNum PosInf)])"
    by (simp add: json_defs str_def)
  have e': "own_entries [(str ''1'', JNum PosInf)] = [(str ''1'', JNum PosInf)]"
    by (simp add: entries_defs str_def)
  show ?thesis
    using h j j' segments_object_replaces_table [OF h j, of example_platform]
      segments_object_replaces_table [OF h j, of example_platform_no_areas]
      segments_object_replaces_table [OF h j', of example_platform]
    by (simp add: e e' c1 c2)
qed

text \<open>
  Claim C10, as amended. When the payload of a \<open>MapData/segments\<close> message is valid JSON
  but not a JSON object, the segment table is replaced by the parsed value, so it is no
  longer a mapping from ids to names. With the derivation of service areas enabled, the
  value \<open>null\<close> makes \<open>Object.entries\<close> throw after the replacement; the exception is
  caught and the only call is a warning. A boolean, number, string or array does not make
  it throw: no warning is logged and the service areas are set to the entries of the
  value, which are none for a boolean or a number. With the derivation disabled the
  handler makes no call at all.
\<close>

theorem segments_non_object_replaces_table:
  assumes "endsWith topic (str ''MapData/segments'')" and "JSON_parse msg = Inr v"
    and "\<not> is_object v"
  shows "onMqttMessage p topic msg =
           (p\<lparr>segments := v\<rparr>,
            if rvc_option mapServiceAreasFromSegments (cfg p) = Some False then []
            else if v = JNull then [LogWarn (str ''Invalid segments JSON: '') TypeError]
            else (case v of
                    JStr s \<Rightarrow>
                      [UpdateServiceAreas
                         (map (\<lambda>(i, c). ServiceArea (ToString_nat i) (JStr [c])) (enumerate 0 s))]
                  | JArr xs \<Rightarrow>
                      [UpdateServiceAreas
                         (map (\<lambda>(i, x). ServiceArea (ToString_nat i) x) (enumerate 0 xs))]
                  | _ \<Rightarrow> [UpdateServiceAreas []]))"
proof -
  from assms(2) have "v \<noteq> JUndefined"
    using JSON_parse_defined [of msg] by auto
  with assms(3) show ?thesis
    by (cases v)
       (simp_all add: onMqttMessage_segments [OF assms(1)] segments_try_valid [OF assms(2)]
          Object_entries_def is_object_def case_prod_unfold)
qed

theorem segments_non_object_replaces_table_witness:
  "endsWith (str ''valetudo/robot/MapData/segments'') (str ''MapData/segments'')
   \<and> JSON_parse (str ''null'') = Inr JNull \<and> \<not> is_object JNull
   \<and> onMqttMessage example_platform (str ''valetudo/robot/MapData/segments'') (str ''null'')
       = (example_platform\<lparr>segments := JNull\<rparr>,
          [LogWarn (str ''Invalid segments JSON: '') TypeError])
   \<and> onMqttMessage example_platform_no_areas (str ''valetudo/robot/MapData/segments'')
         (str ''null'')
       = (example_platform_no_areas\<lparr>segments := JNull\<rparr>, [])
   \<and> JSON_parse (str ''[\"Kitchen\"]'') = Inr (JArr [JStr (str ''Kitchen'')])
   \<and> \<not> is_object (JArr [JStr (str ''Kitchen'')])
   \<and> onMqttMessage example_platform (str ''valetudo/robot/MapData/segments'')
         (str ''[\"Kitchen\"]'')
       = (example_platform\<lparr>segments := JArr [JStr (str ''Kitchen'')]\<rparr>,
          [UpdateServiceAreas [ServiceArea (str ''0'') (JStr (str ''Kitchen''))]])
   \<and> JSON_parse (str ''1e400'') = Inr (JNum PosInf) \<and> \<not> is_object (JNum PosInf)
   \<and> onMqttMessage example_platform (str ''valetudo/robot/MapData/segments'') (str ''1e400'')
       = (example_platform\<lparr>segments := JNum PosInf\<rparr>, [UpdateServiceAreas []])"
proof -
  have h: "endsWith (str ''valetudo/robot/MapData/segments'') (str ''MapData/segments'')"
    by (simp add: endsWith_def str_def)
  have j1: "JSON_parse (str ''null'') = Inr JNull"
    by (simp add: json_defs str_def)
  have j2: "JSON_parse (str ''[\"Kitchen\"]'') = Inr (JArr [JStr (str ''Kitchen'')])"
    by (simp add: json_defs str_def)
  have j3: "JSON_parse (str ''1e400'') = Inr (JNum PosInf)"
    by (simp add: json_defs str_def)
  have o1: "\<not> is_object JNull" and o2: "\<not> is_object (JArr [JStr (str ''Kitchen'')])"
    and o3: "\<not> is_object (JNum PosInf)"
    by (simp_all add: is_object_def)
  have c1: "rvc_option mapServiceAreasFromSegments (cfg example_platform) = None"
    by (simp add: rvc_option_def example_platform_def example_config_def)
  have c2: "rvc_option mapServiceAreasFromSegments (cfg example_platform_no_areas) = Some False"
    by (simp add: rvc_option_def example_platform_no_areas_def)
  have z: "str ''0'' = ToString_nat 0"
    by (simp add: str_def)
  show ?thesis
    using h j1 j2 j3 o1 o2 o3
      segments_non_object_replaces_table [OF h j1 o1, of example_platform]
      segments_non_object_replaces_table [OF h j1 o1, of example_platform_no_areas]
      segments_non_object_replaces_table [OF h j2 o2, of example_platform]
      segments_non_object_replaces_table [OF h j3 o3, of example_platform]
    by (simp add: c1 c2 z enumerate_eq_zip)
qed

text \<open>
  The claim C10 as stated fails for the payload \<open>42\<close>: the projection does not fail, no
  warning is logged, and the service areas are set to the empty list.
\<close>

theorem segments_non_object_counterexample:
  "endsWith (str ''valetudo/robot/MapData/segments'') (str ''MapData/segments'')
   \<and> JSON_parse (str ''42'') = Inr (JNum (Num 42)) \<and> \<not> is_object (JNum (Num 42))
   \<and> onMqttMessage example_platform (str ''valetudo/robot/MapData/segments'') (str ''42'')
       = (example_platform\<lparr>segments := JNum (Num 42)\<rparr>, [UpdateServiceAreas []])
   \<and> LogWarn (str ''Invalid segments JSON: '') TypeError
        \<notin> set (snd (onMqttMessage example_platform (str ''valetudo/robot/MapData/segments'')
                       (str ''42'')))"
proof -
  have h: "endsWith (str ''valetudo/robot/MapData/segments'') (str ''MapData/segments'')"
    by (simp add: endsWith_def str_def)
  have j: "JSON_parse (str ''42'') = Inr (JNum (Num 42))"
    by (simp add: json_defs str_def)
  have c: "rvc_option mapServiceAreasFromSegments (cfg example_platform) = None"
    by (simp add: rvc_option_def example_platform_def example_config_def)
  have "onMqttMessage example_platform (str ''valetudo/robot/MapData/segments'') (str ''42'')
        = (example_platform\<lparr>segments := JNum (Num 42)\<rparr>, [UpdateServiceAreas []])"
    by (simp add: onMqttMessage_segments [OF h] segments_try_valid [OF j] c Object_entries_def)
  with h j show ?thesis
    by (simp add: is_object_def)
qed

subsection \<open>Clean modes\<close>

text \<open>
  Claim C6. For every configuration, a change to the clean mode Vacuum publishes the
  operation-mode preset for vacuum when one is present, then the fan preset for vacuum
  when one is present (\<open>standard\<close> when none is configured), then \<open>off\<close> on
  \<open>WaterUsageControlCapability/preset/set\<close>. That topic receives \<open>off\<close> exactly once and
  nothing else, and the platform does not change.
\<close>

theorem vacuum_mode_turns_water_off:
  "applyCleanMode p Vacuum =
     (p, when_present (rvc_option operationModePresetVacuum (cfg p))
           (\<lambda>s. Publish (base p @ str ''/OperationModeControlCapability/preset/set'') (Text s))
         @ when_present
             (case rvc_option fanPresetForVacuum (cfg p) of
                None \<Rightarrow> Some (str ''standard'')
              | Some s \<Rightarrow> Some s)
             (\<lambda>s. Publish (base p @ str ''/FanSpeedControlCapability/preset/set'') (Text s))
         @ [Publish (base p @ str ''/WaterUsageControlCapability/preset/set'')
              (Text (str ''off''))])
   \<and> published_on (base p @ str ''/WaterUsageControlCapability/preset/set'')
         (snd (applyCleanMode p Vacuum)) = [Text (str ''off'')]"
proof -
  have eq: "applyCleanMode p Vacuum =
     (p, when_present (rvc_option operationModePresetVacuum (cfg p))
           (\<lambda>s. Publish (base p @ str ''/'' @ str ''OperationModeControlCapability/preset/set'') (Text s))
         @ when_present
             (case rvc_option fanPresetForVacuum (cfg p) of
                None \<Rightarrow> Some (str ''standard'')
              | Some s \<Rightarrow> Some s)
             (\<lambda>s. Publish (base p @ str ''/'' @ str ''FanSpeedControlCapability/preset/set'') (Text s))
         @ [Publish (base p @ str ''/'' @ str ''WaterUsageControlCapability/preset/set'')
              (Text (str ''off''))])"
    by (simp add: applyCleanMode_def Let_def publish_if_when_present publish_def nullish_def)
  have n1: "str ''OperationModeControlCapability/preset/set''
              \<noteq> str ''WaterUsageControlCapability/preset/set''"
    and n2: "str ''FanSpeedControlCapability/preset/set''
              \<noteq> str ''WaterUsageControlCapability/preset/set''"
    by (simp_all add: str_def)
  have j: "\<And>x. str ''/'' @ str x = str (''/'' @ x)"
    by (simp add: str_def)
  have once: "published_on (base p @ str ''/'' @ str ''WaterUsageControlCapability/preset/set'')
         (snd (applyCleanMode p Vacuum)) = [Text (str ''off'')]"
    unfolding eq snd_conv published_on_append
    by (simp add: published_on_when_present_other [OF topic_neq [OF n1]]
          published_on_when_present_other [OF topic_neq [OF n2]])
  from eq once show ?thesis
    by (simp add: j)
qed


theorem vacuum_mode_turns_water_off_witness:
  "applyCleanMode example_platform Vacuum =
     (example_platform,
      [Publish (str ''valetudo/robot/FanSpeedControlCapability/preset/set'') (Text (str ''standard'')),
       Publish (str ''valetudo/robot/WaterUsageControlCapability/preset/set'') (Text (str ''off''))])
   \<and> applyCleanMode example_platform_mop Vacuum =
     (example_platform_mop,
      [Publish (str ''valetudo/robot/OperationModeControlCapability/preset/set'') (Text (str ''vacuum'')),
       Publish (str ''valetudo/robot/FanSpeedControlCapability/preset/set'') (Text (str ''max'')),
       Publish (str ''valetudo/robot/WaterUsageControlCapability/preset/set'') (Text (str ''off''))])
   \<and> published_on (str ''valetudo/robot/WaterUsageControlCapability/preset/set'')
         (snd (applyCleanMode example_platform_mop Vacuum)) = [Text (str ''off'')]"
  using vacuum_mode_turns_water_off [of example_platform]
    vacuum_mode_turns_water_off [of example_platform_mop]
  by (simp add: example_platform_def example_platform_mop_def example_config_def
        rvc_option_def when_present_def str_def)

text \<open>
  Claim C2. On a change to the clean mode Mop with the attachment flag false, the only
  call is one informational log message: nothing is published and the platform does not
  change. With the flag true the procedure publishes, each once and in this order, the
  operation-mode preset for mop when one is present, the fan preset for mop when one is
  present (none by default), and the water preset for mop when one is present (\<open>medium\<close>
  when none is configured).
\<close>

theorem mop_mode_requires_watertank:
  "applyCleanMode p Mop =
     (p, if watertank p then
           when_present (rvc_option operationModePresetMop (cfg p))
             (\<lambda>s. Publish (base p @ str ''/OperationModeControlCapability/preset/set'') (Text s))
           @ when_present (rvc_option fanPresetForMop (cfg p))
               (\<lambda>s. Publish (base p @ str ''/FanSpeedControlCapability/preset/set'') (Text s))
           @ when_present
               (case rvc_option waterPresetForMop (cfg p) of
                  None \<Rightarrow> Some (str ''medium'')
                | Some s \<Rightarrow> Some s)
               (\<lambda>s. Publish (base p @ str ''/WaterUsageControlCapability/preset/set'') (Text s))
         else [LogInfo (str ''Mop selected but watertank is not attached; ignoring'')])"
proof -
  have n: "nullish (rvc_option fanPresetForMop (cfg p)) None = rvc_option fanPresetForMop (cfg p)"
    by (simp add: nullish_def split: option.splits)
  have w: "nullish (rvc_option waterPresetForMop (cfg p)) (Some (str ''medium''))
           = (case rvc_option waterPresetForMop (cfg p) of
                None \<Rightarrow> Some (str ''medium'')
              | Some s \<Rightarrow> Some s)"
    by (simp add: nullish_def)
  have s: "str ''/'' @ str ''OperationModeControlCapability/preset/set''
             = str ''/OperationModeControlCapability/preset/set''"
    "str ''/'' @ str ''FanSpeedControlCapability/preset/set''
             = str ''/FanSpeedControlCapability/preset/set''"
    "str ''/'' @ str ''WaterUsageControlCapability/preset/set''
             = str ''/WaterUsageControlCapability/preset/set''"
    by (simp_all add: str_def)
  show ?thesis
    by (simp add: applyCleanMode_def Let_def publish_if_when_present n w s)
qed

theorem mop_mode_requires_watertank_witness:
  "\<not> watertank example_platform
   \<and> applyCleanMode example_platform Mop =
     (example_platform,
      [LogInfo (str ''Mop selected but watertank is not attached; ignoring'')])
   \<and> watertank (example_platform\<lparr>watertank := True\<rparr>)
   \<and> applyCleanMode (example_platform\<lparr>watertank := True\<rparr>) Mop =
     (example_platform\<lparr>watertank := True\<rparr>,
      [Publish (str ''valetudo/robot/WaterUsageControlCapability/preset/set'') (Text (str ''medium''))])
   \<and> watertank example_platform_mop
   \<and> applyCleanMode example_platform_mop Mop =
     (example_platform_mop,
      [Publish (str ''valetudo/robot/OperationModeControlCapability/preset/set'') (Text (str ''mop'')),
       Publish (str ''valetudo/robot/FanSpeedControlCapability/preset/set'') (Text (str ''low'')),
       Publish (str ''valetudo/robot/WaterUsageControlCapability/preset/set'') (Text (str ''medium''))])"
  using mop_mode_requires_watertank [of example_platform]
    mop_mode_requires_watertank [of "example_platform\<lparr>watertank := True\<rparr>"]
    mop_mode_requires_watertank [of example_platform_mop]
  by (simp add: example_platform_def example_platform_mop_def example_config_def
        rvc_option_def when_present_def str_def)

subsection \<open>Cleaning service areas\<close>

text \<open>
  Claim C3. \<open>cleanServiceAreas(areaIds)\<close> makes no call and changes nothing when
  \<open>areaIds\<close> is \<open>null\<close>, \<open>undefined\<close>, any other value that is not an array, or the
  empty array. For a non-empty array it publishes exactly one message on
  \<open>MapSegmentationCapability/clean/set\<close>, the JSON text of the object
  \<open>{segment_ids: areaIds}\<close>, and then sets the run mode of the device to Cleaning.
\<close>

theorem cleanServiceAreas_publishes_segment_ids:
  "cleanServiceAreas p areaIds =
     (p, case areaIds of
           JArr (x # xs) \<Rightarrow>
             [Publish (base p @ str ''/MapSegmentationCapability/clean/set'')
                (Stringified (JObj [(str ''segment_ids'', areaIds)])),
              UpdateRunMode Cleaning]
         | _ \<Rightarrow> [])"
proof -
  have j: "str ''/'' @ str ''MapSegmentationCapability/clean/set''
           = str ''/MapSegmentationCapability/clean/set''"
    by (simp add: str_def)
  show ?thesis
    by (simp add: cleanServiceAreas_def publish_def j split: jsval.splits list.splits)
qed

theorem cleanServiceAreas_publishes_segment_ids_witness:
  "cleanServiceAreas example_platform (JArr []) = (example_platform, [])
   \<and> cleanServiceAreas example_platform JNull = (example_platform, [])
   \<and> cleanServiceAreas example_platform JUndefined = (example_platform, [])
   \<and> cleanServiceAreas example_platform (JStr (str ''A'')) = (example_platform, [])
   \<and> cleanServiceAreas example_platform (JArr [JStr (str ''A''), JStr (str ''B'')]) =
     (example_platform,
      [Publish (str ''valetudo/robot/MapSegmentationCapability/clean/set'')
         (Stringified (JObj [(str ''segment_ids'', JArr [JStr (str ''A''), JStr (str ''B'')])])),
       UpdateRunMode Cleaning])"
  using cleanServiceAreas_publishes_segment_ids [of example_platform "JArr []"]
    cleanServiceAreas_publishes_segment_ids [of example_platform JNull]
    cleanServiceAreas_publishes_segment_ids [of example_platform JUndefined]
    cleanServiceAreas_publishes_segment_ids [of example_platform "JStr (str ''A'')"]
    cleanServiceAreas_publishes_segment_ids
      [of example_platform "JArr [JStr (str ''A''), JStr (str ''B'')]"]
  by (simp add: example_platform_def str_def)

end
